theory Spec2Isabelle
  imports Complex_Main
begin

section \<open>Shared data: identities, PDF documents, files, HTTP errors\<close>

text \<open>
  The repository holds two document controllers. \<^verbatim>\<open>server/controllers/documentController.ts\<close>
  (with \<^verbatim>\<open>models/Document.ts\<close>) maps a viewport placement into PDF space and writes a new
  file per signature; its operations are \<open>applySignature\<close> and \<open>updateDocument\<close>. The
  JavaScript controller (with \<^verbatim>\<open>models/documentModel.js\<close>) has sharing and a signer list;
  its operations are \<open>shareDocument\<close> and \<open>applySignatures\<close>. Both are modelled, each on
  its own record type.

  JavaScript numbers are modelled as \<open>real\<close>: arithmetic is exact, rounding of doubles is
  not represented. ObjectIds are natural numbers compared by equality.
\<close>

type_synonym user_id = nat
type_synonym doc_id = nat

text \<open>An embedded image as pdf-lib reports it: intrinsic width and height.\<close>

record image =
  image_width :: real
  image_height :: real

text \<open>
  What a page's content stream receives. \<open>DrawText text x y size\<close> is
  \<^verbatim>\<open>drawText(text, {x, y, font, size, color})\<close> (font and colour are constants of the code);
  \<open>DrawImage img x y width height opacity\<close> is \<^verbatim>\<open>drawImage(img, {x, y, width, height, opacity})\<close>.
\<close>

datatype draw_op =
  DrawText string real real real
| DrawImage image real real real real "real option"

record pdf_page =
  page_width :: real
  page_height :: real
  content :: "draw_op list"

text \<open>Bytes on disk either parse as a PDF (\<^verbatim>\<open>PDFDocument.load\<close>) or do not.\<close>

datatype file_bytes = PdfBytes "pdf_page list" | OtherBytes string

text \<open>
  Every \<^verbatim>\<open>throw new Error(...)\<close> of the controllers is one constructor; an error reaching the
  client is the HTTP status set on the response together with the message.
  \<open>FailedToApplySignature m\<close> is the message rebuilt by the catch block of \<open>applySignature\<close>.
  Exceptions thrown by a library are named after the call that throws: \<open>ReadFileError\<close>
  (\<^verbatim>\<open>fs.readFile\<close>), \<open>PdfParseError\<close> (\<^verbatim>\<open>PDFDocument.load\<close>), \<open>EmbedError\<close> (decoding and
  embedding the image), \<open>FontEncodingError\<close> (measuring the text), \<open>UndefinedPage\<close> and \<open>UndefinedUser\<close> (a property read on
  \<^verbatim>\<open>undefined\<close> or \<^verbatim>\<open>null\<close>), \<open>WriteFileError\<close> (\<^verbatim>\<open>fs.writeFile\<close>), \<open>SaveError\<close> and
  \<open>ValidationError\<close> (\<^verbatim>\<open>document.save\<close>).
\<close>

datatype message =
  NoUserToken
| MissingSignatureData
| InvalidSignaturePosition
| InvalidPdfDimensions
| InvalidPageNumber
| InvalidSignatureType
| NotADataUrl
| InvalidFileExtension
| DocumentNotFound
| NotAuthorizedToSign
| NotAuthorizedToUpdate
| NotAuthorizedToDelete
| NotAuthorizedToShare
| PageOutOfBounds real nat
| UnsupportedImageFormat
| ReadFileError
| PdfParseError
| EmbedError
| FontEncodingError
| UndefinedPage
| NonFiniteSize
| WriteFileError
| SaveError
| UndefinedUser
| FailedToApplySignature message
| FailedToApplyToPdfDocument
| SignatureRequired
| UserNotFound
| CannotShareWithYourself
| ValidationError
| NoFileUploaded

type_synonym http_error = "nat \<times> message"

text \<open>The file object the upload middleware attaches to a request.\<close>

record uploaded_file =
  originalname :: string
  filename :: string
  mimetype :: string
  upload_size :: nat
  upload_path :: string

section \<open>Strings as JavaScript uses them in the controllers\<close>

definition startsWith :: "string \<Rightarrow> string \<Rightarrow> bool" where
  "startsWith s p = (take (length p) s = p)"

text \<open>The ASCII white space removed by \<^verbatim>\<open>String.prototype.trim\<close>.\<close>

definition white :: "char \<Rightarrow> bool" where
  "white c = (c \<in> {CHR 0x20, CHR 0x09, CHR 0x0A, CHR 0x0B, CHR 0x0C, CHR 0x0D})"

definition trim :: "string \<Rightarrow> string" where
  "trim s = rev (dropWhile white (rev (dropWhile white s)))"

text \<open>\<^verbatim>\<open>toLowerCase\<close> on ASCII letters, by table.\<close>

definition toLowerCase :: "string \<Rightarrow> string" where
  "toLowerCase s =
     map (\<lambda>c. case map_of (zip ''ABCDEFGHIJKLMNOPQRSTUVWXYZ'' ''abcdefghijklmnopqrstuvwxyz'') c of
                 None \<Rightarrow> c
               | Some l \<Rightarrow> l) s"

text \<open>\<^verbatim>\<open>s.split(',')\<close>: the pieces between commas, at least one piece.\<close>

fun split_comma :: "string \<Rightarrow> string list" where
  "split_comma [] = [[]]"
| "split_comma (c # cs) =
     (if c = CHR '','' then [] # split_comma cs
      else (case split_comma cs of
              [] \<Rightarrow> [[c]]
            | p # ps \<Rightarrow> (c # p) # ps))"

text \<open>Decimal rendering of a number inside a template string.\<close>

fun string_of_nat :: "nat \<Rightarrow> string" where
  "string_of_nat n =
     (if n < 10 then [''0123456789'' ! n]
      else string_of_nat (n div 10) @ [''0123456789'' ! (n mod 10)])"

declare string_of_nat.simps [simp del]

section \<open>Collaborators outside the repository\<close>

text \<open>
  Library and platform functions the controllers call are parameters of the model:
  Node's \<^verbatim>\<open>path\<close> functions, \<^verbatim>\<open>Date.now()\<close>, the pdf-lib decoders and font
  metrics, and whether the file system and the database accept a write.
  \<open>embedPng\<close>/\<open>embedJpg\<close> take the base64 part of the data URL (decoding the
  base64 text and embedding it are folded together); \<open>None\<close> is a thrown exception.
  \<open>widthOfTextAtSize\<close> is \<open>None\<close> for a text the standard font cannot encode, for
  which the measurement throws.
\<close>

record env =
  SIGNED_DOCS_DIR :: string
  now :: nat
  path_extname :: "string \<Rightarrow> string"
  path_basename :: "string \<Rightarrow> string \<Rightarrow> string"
  path_join :: "string \<Rightarrow> string \<Rightarrow> string"
  embedPng :: "string \<Rightarrow> image option"
  embedJpg :: "string \<Rightarrow> image option"
  widthOfTextAtSize :: "string \<Rightarrow> real \<Rightarrow> real option"
  heightAtSize :: "real \<Rightarrow> real"
  writeFile_ok :: "string \<Rightarrow> bool"
  save_ok :: bool

section \<open>The TypeScript controller\<close>

text \<open>
  Line numbers in this section are those of
  \<^verbatim>\<open>src/server/controllers/documentController.ts\<close>.
\<close>

subsection \<open>\<^verbatim>\<open>models/Document.ts\<close> and the stores\<close>

datatype status = Pending | Signed | Archived | Reviewed

record document =
  user :: user_id
  fileName :: string
  filePath :: string
  originalName :: string
  fileType :: string
  fileSize :: nat
  uploadDate :: nat
  status :: status
  lastSignedAt :: "nat option"

text \<open>The metadata collection and the file system, the two stores a request can change.\<close>

record store =
  documents :: "doc_id \<rightharpoonup> document"
  files :: "string \<rightharpoonup> file_bytes"

subsection \<open>The request body of \<open>applySignature\<close> and its validation (lines 231--276)\<close>

text \<open>
  A field is \<open>None\<close> when it is absent or fails the \<^verbatim>\<open>typeof\<close> test of the
  validation; positions and dimensions are pairs of numbers.
\<close>

record sign_body =
  signatureData :: "string option"
  signaturePosition :: "(real \<times> real) option"
  pdfPageDimensions :: "(real \<times> real) option"
  pageNumber :: "real option"
  signatureType :: "string option"
  signatureFileExtension :: "string option"

record sign_request =
  req_data :: string
  req_position :: "real \<times> real"
  req_dimensions :: "real \<times> real"
  req_page :: real
  req_type :: string

definition validate :: "sign_body \<Rightarrow> http_error + sign_request" where
  "validate b =
    (case signatureData b of
       None \<Rightarrow> Inl (400, MissingSignatureData)
     | Some d \<Rightarrow>
       if d = [] \<or> trim d = [] then Inl (400, MissingSignatureData)
       else
        (case signaturePosition b of
           None \<Rightarrow> Inl (400, InvalidSignaturePosition)
         | Some pos \<Rightarrow>
          (case pdfPageDimensions b of
             None \<Rightarrow> Inl (400, InvalidPdfDimensions)
           | Some dims \<Rightarrow>
             if fst dims \<le> 0 \<or> snd dims \<le> 0 then Inl (400, InvalidPdfDimensions)
             else
              (case pageNumber b of
                 None \<Rightarrow> Inl (400, InvalidPageNumber)
               | Some n \<Rightarrow>
                 if n < 1 then Inl (400, InvalidPageNumber)
                 else
                  (case signatureType b of
                     None \<Rightarrow> Inl (400, InvalidSignatureType)
                   | Some t \<Rightarrow>
                     if t \<notin> set [''draw'', ''upload'', ''text''] then Inl (400, InvalidSignatureType)
                     else if t = ''draw'' \<or> t = ''upload'' then
                       (if \<not> startsWith d ''data:image/'' then Inl (400, NotADataUrl)
                        else
                         (case signatureFileExtension b of
                            None \<Rightarrow> Inl (400, InvalidFileExtension)
                          | Some x \<Rightarrow>
                            if x = [] \<or> toLowerCase x \<notin> set [''png'', ''jpeg'', ''jpg'']
                            then Inl (400, InvalidFileExtension)
                            else Inr \<lparr>req_data = d, req_position = pos, req_dimensions = dims,
                                      req_page = n, req_type = t\<rparr>))
                     else Inr \<lparr>req_data = d, req_position = pos, req_dimensions = dims,
                               req_page = n, req_type = t\<rparr>)))))"

subsection \<open>Coordinate mapping (lines 315--394)\<close>

record placement =
  finalX :: real
  finalY :: real
  finalSignatureWidth :: real
  finalSignatureHeight :: real

text \<open>Lines 319--320: \<open>scaleX\<close> and \<open>scaleY\<close>.\<close>

definition scaleX :: "pdf_page \<Rightarrow> real \<times> real \<Rightarrow> real" where
  "scaleX targetPage dims = page_width targetPage / fst dims"

definition scaleY :: "pdf_page \<Rightarrow> real \<times> real \<Rightarrow> real" where
  "scaleY targetPage dims = page_height targetPage / snd dims"

text \<open>Lines 331--342: a text run is measured at the fixed size 24 and is not scaled.\<close>

definition fontSize :: real where
  "fontSize = 24"

definition textPlacement :: "real \<Rightarrow> real \<Rightarrow> real \<times> real \<Rightarrow> real \<times> real \<Rightarrow> pdf_page \<Rightarrow> placement" where
  "textPlacement textWidth textHeight pos dims targetPage =
     \<lparr>finalX = fst pos * scaleX targetPage dims,
      finalY = page_height targetPage - (snd pos * scaleY targetPage dims) - textHeight,
      finalSignatureWidth = textWidth,
      finalSignatureHeight = textHeight\<rparr>"

text \<open>Lines 370--381: an image is taken as displayed 150 viewport units wide.\<close>

definition frontendDisplayWidth :: real where
  "frontendDisplayWidth = 150"

definition frontendDisplayHeight :: "image \<Rightarrow> real" where
  "frontendDisplayHeight img = image_height img * (frontendDisplayWidth / image_width img)"

definition imagePlacement :: "image \<Rightarrow> real \<times> real \<Rightarrow> real \<times> real \<Rightarrow> pdf_page \<Rightarrow> placement" where
  "imagePlacement img pos dims targetPage =
    (let w = frontendDisplayWidth * scaleX targetPage dims;
         h = frontendDisplayHeight img * scaleY targetPage dims
     in \<lparr>finalX = fst pos * scaleX targetPage dims,
         finalY = page_height targetPage - (snd pos * scaleY targetPage dims) - h,
         finalSignatureWidth = w,
         finalSignatureHeight = h\<rparr>)"

text \<open>
  Lines 393--394, which run after the draw call: the clamped position. The code assigns it
  to \<open>finalX\<close> and \<open>finalY\<close> and never reads them again.
\<close>

definition clamped :: "pdf_page \<Rightarrow> placement \<Rightarrow> placement" where
  "clamped targetPage p =
     p\<lparr>finalX := max 0 (min (finalX p) (page_width targetPage - finalSignatureWidth p)),
       finalY := max 0 (min (finalY p) (page_height targetPage - finalSignatureHeight p))\<rparr>"

text \<open>
  Lines 330--394 on the target page: the page after the draw call, and the placement that
  was drawn. An image of width 0, for which JavaScript computes \<open>Infinity\<close>, has no
  counterpart in the real numbers and is modelled as a failed request.
\<close>

definition drawSignature :: "env \<Rightarrow> sign_request \<Rightarrow> pdf_page \<Rightarrow> http_error + pdf_page" where
  "drawSignature e r targetPage =
    (if req_type r = ''text'' then
       (case widthOfTextAtSize e (req_data r) fontSize of
          None \<Rightarrow> Inl (500, FontEncodingError)
        | Some textWidth \<Rightarrow>
           (let textHeight = heightAtSize e fontSize;
                p = textPlacement textWidth textHeight (req_position r) (req_dimensions r) targetPage;
                drawn = targetPage\<lparr>content := content targetPage @
                          [DrawText (req_data r) (finalX p) (finalY p) fontSize]\<rparr>;
                unused = clamped targetPage p
            in Inr drawn))
     else
       (case split_comma (req_data r) of
          _ # base64ImagePart # _ \<Rightarrow>
            (case (if startsWith (req_data r) ''data:image/png''
                   then Inr (embedPng e base64ImagePart)
                   else if startsWith (req_data r) ''data:image/jpeg''
                         \<or> startsWith (req_data r) ''data:image/jpg''
                   then Inr (embedJpg e base64ImagePart)
                   else Inl (400, UnsupportedImageFormat)) of
               Inl err \<Rightarrow> Inl err
             | Inr None \<Rightarrow> Inl (500, EmbedError)
             | Inr (Some img) \<Rightarrow>
                 if image_width img = 0 then Inl (500, NonFiniteSize)
                 else
                  (let p = imagePlacement img (req_position r) (req_dimensions r) targetPage;
                       drawn = targetPage\<lparr>content := content targetPage @
                                 [DrawImage img (finalX p) (finalY p)
                                    (finalSignatureWidth p) (finalSignatureHeight p) None]\<rparr>;
                       unused = clamped targetPage p
                   in Inr drawn))
        | _ \<Rightarrow> Inl (500, EmbedError)))"

text \<open>
  Lines 305--312: the page is chosen after the bounds check. A page number that is not an
  integer indexes no page, and reading its width throws.
\<close>

definition signPdf :: "env \<Rightarrow> sign_request \<Rightarrow> pdf_page list \<Rightarrow> http_error + pdf_page list" where
  "signPdf e r pages =
    (if req_page r < 1 \<or> req_page r > real (length pages)
     then Inl (400, PageOutOfBounds (req_page r) (length pages))
     else if req_page r \<noteq> real_of_int \<lfloor>req_page r\<rfloor> then Inl (500, UndefinedPage)
     else
      (let i = nat \<lfloor>req_page r\<rfloor> - 1 in
       case drawSignature e r (pages ! i) of
         Inl err \<Rightarrow> Inl err
       | Inr drawn \<Rightarrow> Inr (pages[i := drawn])))"

subsection \<open>Versioning and the metadata update (lines 397--412)\<close>

record sign_response =
  documentId :: doc_id
  newStatus :: status

definition newFileName :: "env \<Rightarrow> document \<Rightarrow> string" where
  "newFileName e doc =
    (let originalExt = path_extname e (originalName doc);
         baseName = path_basename e (originalName doc) originalExt
     in baseName @ ''_signed_'' @ string_of_nat (now e) @ ''.pdf'')"

definition newFilePath :: "env \<Rightarrow> document \<Rightarrow> string" where
  "newFilePath e doc = path_join e (SIGNED_DOCS_DIR e) (newFileName e doc)"

text \<open>
  \<^verbatim>\<open>fs.writeFile\<close> comes first; only when it has returned are the fields of the record
  assigned and saved. The schema trims \<open>fileName\<close>. Both clock readings of the block are
  the one \<open>now\<close>. A write that fails is taken to leave the file system as it was.
\<close>

definition signedVersion :: "env \<Rightarrow> document \<Rightarrow> document" where
  "signedVersion e doc =
     doc\<lparr>filePath := newFilePath e doc,
         fileName := trim (newFileName e doc),
         status := Signed,
         lastSignedAt := Some (now e)\<rparr>"

definition persistSigned ::
  "env \<Rightarrow> store \<Rightarrow> doc_id \<Rightarrow> document \<Rightarrow> pdf_page list \<Rightarrow> (http_error + sign_response) \<times> store" where
  "persistSigned e st did doc modified =
    (if \<not> writeFile_ok e (newFilePath e doc) then (Inl (500, WriteFileError), st)
     else
      (let written = st\<lparr>files := (files st)(newFilePath e doc \<mapsto> PdfBytes modified)\<rparr>;
           doc' = signedVersion e doc
       in if \<not> save_ok e then (Inl (500, SaveError), written)
          else (Inr \<lparr>documentId = did, newStatus = status doc'\<rparr>,
                written\<lparr>documents := (documents written)(did \<mapsto> doc')\<rparr>)))"

subsection \<open>\<open>applySignature\<close> (lines 210--433)\<close>

text \<open>The catch block keeps a status that was already set and rebuilds the message.\<close>

fun caught :: "http_error \<Rightarrow> http_error" where
  "caught (code, m) = (code, FailedToApplySignature m)"

definition applySignature ::
  "env \<Rightarrow> store \<Rightarrow> user_id option \<Rightarrow> doc_id \<Rightarrow> sign_body \<Rightarrow> (http_error + sign_response) \<times> store" where
  "applySignature e st actor did b =
    (case actor of
       None \<Rightarrow> (Inl (401, NoUserToken), st)
     | Some uid \<Rightarrow>
      (case validate b of
         Inl err \<Rightarrow> (Inl err, st)
       | Inr r \<Rightarrow>
        (case documents st did of
           None \<Rightarrow> (Inl (caught (404, DocumentNotFound)), st)
         | Some doc \<Rightarrow>
           if user doc \<noteq> uid then (Inl (caught (403, NotAuthorizedToSign)), st)
           else
            (case files st (filePath doc) of
               None \<Rightarrow> (Inl (caught (500, ReadFileError)), st)
             | Some (OtherBytes _) \<Rightarrow> (Inl (caught (500, PdfParseError)), st)
             | Some (PdfBytes pages) \<Rightarrow>
              (case signPdf e r pages of
                 Inl err \<Rightarrow> (Inl (caught err), st)
               | Inr modified \<Rightarrow>
                (case persistSigned e st did doc modified of
                   (Inl err, st') \<Rightarrow> (Inl (caught err), st')
                 | (Inr resp, st') \<Rightarrow> (Inr resp, st')))))))"

subsection \<open>\<open>updateDocument\<close> (lines 439--469)\<close>

text \<open>
  The body's \<open>status\<close> is \<open>None\<close> when absent. \<^verbatim>\<open>req.body.status || document.status\<close>
  keeps the current status for an absent or empty value; any other value is assigned and
  checked against the schema's enum when the document is saved.
\<close>

definition status_of_string :: "string \<Rightarrow> status option" where
  "status_of_string s =
    (if s = ''pending'' then Some Pending
     else if s = ''signed'' then Some Signed
     else if s = ''archived'' then Some Archived
     else if s = ''reviewed'' then Some Reviewed
     else None)"

definition updateDocument ::
  "env \<Rightarrow> store \<Rightarrow> user_id option \<Rightarrow> doc_id \<Rightarrow> string option \<Rightarrow> (http_error + document) \<times> store" where
  "updateDocument e st actor did body_status =
    (case actor of
       None \<Rightarrow> (Inl (401, NoUserToken), st)
     | Some uid \<Rightarrow>
      (case documents st did of
         None \<Rightarrow> (Inl (404, DocumentNotFound), st)
       | Some doc \<Rightarrow>
         if user doc \<noteq> uid then (Inl (403, NotAuthorizedToUpdate), st)
         else
          (case (case body_status of
                   None \<Rightarrow> Some (status doc)
                 | Some v \<Rightarrow> if v = [] then Some (status doc) else status_of_string v) of
             None \<Rightarrow> (Inl (500, ValidationError), st)
           | Some s \<Rightarrow>
             if \<not> save_ok e then (Inl (500, SaveError), st)
             else
              (let updatedDocument = doc\<lparr>status := s\<rparr>
               in (Inr updatedDocument,
                   st\<lparr>documents := (documents st)(did \<mapsto> updatedDocument)\<rparr>)))))"

subsection \<open>\<open>uploadDocument\<close> (lines 43--84) and \<open>deleteDocument\<close> (lines 127--163)\<close>

text \<open>
  The TypeScript \<open>uploadDocument\<close> carries the suffix \<open>_ts\<close>, the name without suffix
  being the JavaScript controller's. \<open>new_id\<close> is the identifier the database gives the
  created record; the uploaded file is on disk before the handler runs.
\<close>

definition uploadDocument_ts ::
  "env \<Rightarrow> store \<Rightarrow> user_id option \<Rightarrow> uploaded_file option \<Rightarrow> doc_id
     \<Rightarrow> (http_error + document) \<times> store" where
  "uploadDocument_ts e st actor file new_id =
    (case file of
       None \<Rightarrow> (Inl (400, NoFileUploaded), st)
     | Some f \<Rightarrow>
      (case actor of
         None \<Rightarrow> (Inl (401, NoUserToken), st)
       | Some uid \<Rightarrow>
         if \<not> save_ok e then (Inl (500, SaveError), st)
         else
          (let created = \<lparr>user = uid, fileName = trim (filename f), filePath = upload_path f,
                          originalName = originalname f, fileType = mimetype f,
                          fileSize = upload_size f, uploadDate = now e,
                          status = Pending, lastSignedAt = None\<rparr>
           in (Inr created, st\<lparr>documents := (documents st)(new_id \<mapsto> created)\<rparr>))))"

text \<open>
  \<open>deleteDocument\<close> unlinks the current file, going on when that fails, and then removes
  the record.
\<close>

definition deleteDocument ::
  "env \<Rightarrow> store \<Rightarrow> user_id option \<Rightarrow> doc_id \<Rightarrow> (http_error + unit) \<times> store" where
  "deleteDocument e st actor did =
    (case actor of
       None \<Rightarrow> (Inl (401, NoUserToken), st)
     | Some uid \<Rightarrow>
      (case documents st did of
         None \<Rightarrow> (Inl (404, DocumentNotFound), st)
       | Some doc \<Rightarrow>
         if user doc \<noteq> uid then (Inl (403, NotAuthorizedToDelete), st)
         else
          (let unlinked = (if writeFile_ok e (filePath doc)
                           then st\<lparr>files := (files st)(filePath doc := None)\<rparr> else st)
           in if \<not> save_ok e then (Inl (500, SaveError), unlinked)
              else (Inr (), unlinked\<lparr>documents := (documents unlinked)(did := None)\<rparr>))))"

subsection \<open>The routes that change a store (\<^verbatim>\<open>routes/documentRoutes.ts\<close>)\<close>

text \<open>
  The remaining routes (\<^verbatim>\<open>GET /\<close>, \<^verbatim>\<open>GET /:id\<close>, \<^verbatim>\<open>GET /view/:id\<close>) only read.
  \<open>handle\<close> is the store after a request.
\<close>

datatype request =
  Upload "uploaded_file option" doc_id
| Delete doc_id
| Sign doc_id sign_body
| Update doc_id "string option"

fun handle :: "env \<Rightarrow> store \<Rightarrow> user_id option \<Rightarrow> request \<Rightarrow> store" where
  "handle e st actor (Upload file new_id) = snd (uploadDocument_ts e st actor file new_id)"
| "handle e st actor (Delete did) = snd (deleteDocument e st actor did)"
| "handle e st actor (Sign did b) = snd (applySignature e st actor did b)"
| "handle e st actor (Update did body_status) = snd (updateDocument e st actor did body_status)"

section \<open>The JavaScript controller\<close>

text \<open>
  The controller is \<^verbatim>\<open>src/unnamed/part_002\<close>, which imports
  \<^verbatim>\<open>models/documentModel.js\<close>; line numbers in this section are its own.
\<close>

subsection \<open>\<^verbatim>\<open>models/documentModel.js\<close>\<close>

text \<open>
  The schema restricts a share's permission to \<^verbatim>\<open>'view'\<close> and \<^verbatim>\<open>'view_and_sign'\<close>; the
  model takes a request's permission from that enum. The field names that the TypeScript
  record already uses carry the suffix \<open>_js\<close>.
\<close>

datatype permission = View | ViewAndSign

record share =
  share_user :: user_id
  permission :: permission

record signer =
  signer_user :: user_id
  signedAt :: nat
  signatureImage :: string

record document_js =
  owner :: user_id
  originalName_js :: string
  fileName_js :: string
  filePath_js :: string
  size_js :: nat
  status_js :: string
  sharedWith :: "share list"
  signedBy :: "signer list"

record store_js =
  documents_js :: "doc_id \<rightharpoonup> document_js"
  files_js :: "string \<rightharpoonup> file_bytes"
  users :: "string \<rightharpoonup> user_id"

subsection \<open>\<open>uploadDocument\<close> (lines 16--35)\<close>

text \<open>\<open>new_id\<close> is the identifier the database gives the created record.\<close>

definition uploadDocument ::
  "store_js \<Rightarrow> user_id \<Rightarrow> uploaded_file option \<Rightarrow> doc_id \<Rightarrow> (http_error + document_js) \<times> store_js" where
  "uploadDocument st uid file new_id =
    (case file of
       None \<Rightarrow> (Inl (400, NoFileUploaded), st)
     | Some f \<Rightarrow>
        (let doc = \<lparr>owner = uid, originalName_js = originalname f, fileName_js = filename f,
                    filePath_js = upload_path f, size_js = upload_size f,
                    status_js = ''pending'', sharedWith = [], signedBy = []\<rparr>
         in (Inr doc, st\<lparr>documents_js := (documents_js st)(new_id \<mapsto> doc)\<rparr>)))"

subsection \<open>\<open>shareDocument\<close> (lines 197--254)\<close>

text \<open>
  The acting user is \<open>None\<close> when the token's user no longer exists; reading its
  \<open>_id\<close> then throws.
\<close>

datatype share_outcome = PermissionUpdated | SharedSuccessfully

definition shareDocument ::
  "env \<Rightarrow> store_js \<Rightarrow> user_id option \<Rightarrow> doc_id \<Rightarrow> string \<Rightarrow> permission
     \<Rightarrow> (http_error + share_outcome \<times> document_js) \<times> store_js" where
  "shareDocument e st actor did shareWithEmail perm =
    (case documents_js st did of
       None \<Rightarrow> (Inl (404, DocumentNotFound), st)
     | Some doc \<Rightarrow>
      (case actor of
         None \<Rightarrow> (Inl (500, UndefinedUser), st)
       | Some uid \<Rightarrow>
         if owner doc \<noteq> uid then (Inl (403, NotAuthorizedToShare), st)
         else
          (case users st shareWithEmail of
             None \<Rightarrow> (Inl (404, UserNotFound), st)
           | Some userToShareWith \<Rightarrow>
             if userToShareWith = uid then (Inl (400, CannotShareWithYourself), st)
             else
              (let isAlreadyShared = (\<exists>s \<in> set (sharedWith doc). share_user s = userToShareWith)
               in if isAlreadyShared then
                    (let doc' = doc\<lparr>sharedWith :=
                                  map (\<lambda>s. if share_user s = userToShareWith
                                            then \<lparr>share_user = userToShareWith, permission = perm\<rparr>
                                            else s) (sharedWith doc)\<rparr>
                     in if \<not> save_ok e then (Inl (500, SaveError), st)
                        else (Inr (PermissionUpdated, doc'),
                              st\<lparr>documents_js := (documents_js st)(did \<mapsto> doc')\<rparr>))
                  else
                    (let doc' = doc\<lparr>sharedWith := sharedWith doc @
                                  [\<lparr>share_user = userToShareWith, permission = perm\<rparr>]\<rparr>
                     in if \<not> save_ok e then (Inl (500, SaveError), st)
                        else (Inr (SharedSuccessfully, doc'),
                              st\<lparr>documents_js := (documents_js st)(did \<mapsto> doc')\<rparr>))))))"

subsection \<open>\<open>applySignatures\<close> (lines 260--369)\<close>

text \<open>\<^verbatim>\<open>findIndex\<close>: the first index whose element satisfies the test, or -1.\<close>

fun findIndex :: "('a \<Rightarrow> bool) \<Rightarrow> 'a list \<Rightarrow> int" where
  "findIndex P [] = - 1"
| "findIndex P (x # xs) =
     (if P x then 0
      else (let i = findIndex P xs in if i > - 1 then i + 1 else - 1))"

text \<open>
  Lines 290--341, the try block: every exception in it, the unsupported-format error
  included, leaves through the catch block as the same 500. The image is drawn at the
  centre of the first page with a fixed size, and the bytes are written over
  \<open>document.filePath\<close>.
\<close>

definition signatureWidth :: real where
  "signatureWidth = 250"

definition signatureHeight :: real where
  "signatureHeight = 125"

definition drawCentered :: "env \<Rightarrow> string \<Rightarrow> pdf_page list \<Rightarrow> pdf_page list option" where
  "drawCentered e signature pages =
    (case split_comma signature of
       _ # signatureImageBase64 # _ \<Rightarrow>
        (case (if startsWith signature ''data:image/png'' then embedPng e signatureImageBase64
               else if startsWith signature ''data:image/jpeg''
                     \<or> startsWith signature ''data:image/jpg'' then embedJpg e signatureImageBase64
               else None) of
           None \<Rightarrow> None
         | Some embedded \<Rightarrow>
            (case pages of
               [] \<Rightarrow> None
             | firstPage # others \<Rightarrow>
                (let xPos = (page_width firstPage / 2) - (signatureWidth / 2);
                     yPos = (page_height firstPage / 2) - (signatureHeight / 2)
                 in Some (firstPage\<lparr>content := content firstPage @
                            [DrawImage embedded xPos yPos signatureWidth signatureHeight
                               (Some 0.9)]\<rparr> # others))))
     | _ \<Rightarrow> None)"

text \<open>Lines 349--364: update the signer's entry in place, or append one.\<close>

definition recordSigner :: "user_id \<Rightarrow> nat \<Rightarrow> string \<Rightarrow> signer list \<Rightarrow> signer list" where
  "recordSigner userId t signature entries =
    (let existingSignatureIndex = findIndex (\<lambda>s. signer_user s = userId) entries
     in if existingSignatureIndex > - 1 then
          entries[nat existingSignatureIndex :=
            (entries ! nat existingSignatureIndex)\<lparr>signedAt := t, signatureImage := signature\<rparr>]
        else entries @ [\<lparr>signer_user = userId, signedAt = t, signatureImage = signature\<rparr>])"

text \<open>Lines 346--364: the record as it is saved after the file has been written.\<close>

definition signedRecord :: "env \<Rightarrow> user_id \<Rightarrow> string \<Rightarrow> document_js \<Rightarrow> document_js" where
  "signedRecord e userId signature doc =
     doc\<lparr>status_js := ''signed'',
         signedBy := recordSigner userId (now e) signature (signedBy doc)\<rparr>"

definition applySignatures ::
  "env \<Rightarrow> store_js \<Rightarrow> user_id option \<Rightarrow> doc_id \<Rightarrow> string option
     \<Rightarrow> (http_error + document_js) \<times> store_js" where
  "applySignatures e st actor did body_signature =
    (case (if body_signature = Some [] then None else body_signature) of
       None \<Rightarrow> (Inl (400, SignatureRequired), st)
     | Some signature \<Rightarrow>
      (case documents_js st did of
         None \<Rightarrow> (Inl (404, DocumentNotFound), st)
       | Some doc \<Rightarrow>
        (case actor of
           None \<Rightarrow> (Inl (500, UndefinedUser), st)
         | Some userId \<Rightarrow>
            (let isOwner = (owner doc = userId);
                 hasSignPermission =
                   (\<exists>s \<in> set (sharedWith doc). share_user s = userId \<and> permission s = ViewAndSign)
             in if \<not> isOwner \<and> \<not> hasSignPermission then (Inl (403, NotAuthorizedToSign), st)
                else
                 (case files_js st (filePath_js doc) of
                    None \<Rightarrow> (Inl (500, FailedToApplyToPdfDocument), st)
                  | Some (OtherBytes _) \<Rightarrow> (Inl (500, FailedToApplyToPdfDocument), st)
                  | Some (PdfBytes pages) \<Rightarrow>
                    (case drawCentered e signature pages of
                       None \<Rightarrow> (Inl (500, FailedToApplyToPdfDocument), st)
                     | Some modified \<Rightarrow>
                       if \<not> writeFile_ok e (filePath_js doc)
                       then (Inl (500, FailedToApplyToPdfDocument), st)
                       else
                        (let written = st\<lparr>files_js := (files_js st)(filePath_js doc \<mapsto> PdfBytes modified)\<rparr>;
                             doc' = signedRecord e userId signature doc
                         in if \<not> save_ok e then (Inl (500, SaveError), written)
                            else (Inr doc',
                                  written\<lparr>documents_js := (documents_js written)(did \<mapsto> doc')\<rparr>))))))))"

section \<open>Concrete data for the worked examples\<close>

text \<open>
  Node's \<^verbatim>\<open>path.extname\<close> and \<^verbatim>\<open>path.basename\<close> on names without a directory
  separator, and a deployment: a font with Helvetica's height and an average glyph width, a
  decoder that returns a 300 by 150 image for PNG data, stores that accept every write.
\<close>

definition extname_plain :: "string \<Rightarrow> string" where
  "extname_plain p =
    (let tail = rev (takeWhile (\<lambda>c. c \<noteq> CHR ''.'') (rev p))
     in if CHR ''.'' \<notin> set p \<or> length tail + 1 = length p \<or> p = ''..'' then []
        else CHR ''.'' # tail)"

definition basename_plain :: "string \<Rightarrow> string \<Rightarrow> string" where
  "basename_plain p x =
    (if x \<noteq> [] \<and> length x \<le> length p \<and> drop (length p - length x) p = x
     then take (length p - length x) p else p)"

definition sample_env :: env where
  "sample_env =
    \<lparr>SIGNED_DOCS_DIR = ''/app/signed_documents'',
     now = 1700000000123,
     path_extname = extname_plain,
     path_basename = basename_plain,
     path_join = (\<lambda>dir name. dir @ ''/'' @ name),
     embedPng = (\<lambda>b. Some \<lparr>image_width = 300, image_height = 150\<rparr>),
     embedJpg = (\<lambda>b. None),
     widthOfTextAtSize = (\<lambda>t z. Some (real (length t) * (535 / 1000) * z)),
     heightAtSize = (\<lambda>z. (925 / 1000) * z),
     writeFile_ok = (\<lambda>p. True),
     save_ok = True\<rparr>"

definition letter :: pdf_page where
  "letter = \<lparr>page_width = 612, page_height = 792, content = []\<rparr>"

definition contract :: document where
  "contract =
    \<lparr>user = 10, fileName = ''1699-contract.pdf'', filePath = ''/app/uploads/1699-contract.pdf'',
     originalName = ''contract.pdf'', fileType = ''application/pdf'', fileSize = 1000,
     uploadDate = 1699000000000, status = Pending, lastSignedAt = None\<rparr>"

definition sample_store :: store where
  "sample_store =
    \<lparr>documents = [7 \<mapsto> contract],
     files = [''/app/uploads/1699-contract.pdf'' \<mapsto> PdfBytes [letter]]\<rparr>"

definition three_page_store :: store where
  "three_page_store =
    \<lparr>documents = [7 \<mapsto> contract],
     files = [''/app/uploads/1699-contract.pdf'' \<mapsto> PdfBytes [letter, letter, letter]]\<rparr>"

definition signed_store :: store where
  "signed_store =
    \<lparr>documents = [7 \<mapsto> contract\<lparr>status := Signed\<rparr>],
     files = [''/app/uploads/1699-contract.pdf'' \<mapsto> PdfBytes [letter]]\<rparr>"

text \<open>
  A typed signature placed near the lower right corner of a page shown at twice its size,
  and a drawn signature placed at (50, 100) of a page shown 300 by 400.
\<close>

definition text_body :: sign_body where
  "text_body =
    \<lparr>signatureData = Some ''John Doe'', signaturePosition = Some (1100, 1560),
     pdfPageDimensions = Some (1224, 1584), pageNumber = Some 1,
     signatureType = Some ''text'', signatureFileExtension = None\<rparr>"

definition image_body :: sign_body where
  "image_body =
    \<lparr>signatureData = Some ''data:image/png;base64,iVBORw0KGgo='',
     signaturePosition = Some (50, 100),
     pdfPageDimensions = Some (300, 400), pageNumber = Some 1,
     signatureType = Some ''draw'', signatureFileExtension = Some ''png''\<rparr>"

definition contract_js :: document_js where
  "contract_js =
    \<lparr>owner = 10, originalName_js = ''contract.pdf'', fileName_js = ''1699-contract.pdf'',
     filePath_js = ''/app/uploads/1699-contract.pdf'', size_js = 1000,
     status_js = ''pending'', sharedWith = [], signedBy = []\<rparr>"

definition sample_store_js :: store_js where
  "sample_store_js =
    \<lparr>documents_js = [7 \<mapsto> contract_js],
     files_js = [''/app/uploads/1699-contract.pdf'' \<mapsto> PdfBytes [letter]],
     users = [''alice@example.com'' \<mapsto> 10, ''bob@example.com'' \<mapsto> 20]\<rparr>"

text \<open>
  The placement rectangle of a request in viewport units: the reported position with the
  artifact's display size, 150 by \<open>frontendDisplayHeight\<close> for an image and the measured
  text box for a typed signature (the only size the code has for it).
\<close>

definition inside_viewport :: "real \<times> real \<Rightarrow> real \<times> real \<Rightarrow> real \<times> real \<Rightarrow> bool" where
  "inside_viewport pos display dims =
    (0 \<le> fst pos \<and> 0 \<le> snd pos \<and> fst pos + fst display \<le> fst dims
     \<and> snd pos + snd display \<le> snd dims)"

definition inside_page :: "pdf_page \<Rightarrow> placement \<Rightarrow> bool" where
  "inside_page targetPage p =
    (0 \<le> finalX p \<and> finalX p + finalSignatureWidth p \<le> page_width targetPage
     \<and> 0 \<le> finalY p \<and> finalY p + finalSignatureHeight p \<le> page_height targetPage)"

text \<open>
  What the model keeps true of a record of the JavaScript controller: one share per grantee,
  one entry per signer, and the owner is no grantee.
\<close>

definition well_formed :: "document_js \<Rightarrow> bool" where
  "well_formed doc =
    (distinct (map share_user (sharedWith doc))
     \<and> distinct (map signer_user (signedBy doc))
     \<and> owner doc \<notin> set (map share_user (sharedWith doc)))"

text \<open>
  The share list a successful \<open>shareDocument\<close> saves (lines 228--247): the grantee's entry
  replaced when there is one, appended otherwise.
\<close>

definition sharedAfter :: "user_id \<Rightarrow> permission \<Rightarrow> share list \<Rightarrow> share list" where
  "sharedAfter g perm shares =
    (if \<exists>s \<in> set shares. share_user s = g
     then map (\<lambda>s. if share_user s = g then \<lparr>share_user = g, permission = perm\<rparr> else s) shares
     else shares @ [\<lparr>share_user = g, permission = perm\<rparr>])"

text \<open>
  A record shared with two users, and the stores after two successive share requests and
  after two successive sign requests of the same actor.
\<close>

definition shared_contract_js :: document_js where
  "shared_contract_js =
    contract_js\<lparr>sharedWith := [\<lparr>share_user = 20, permission = ViewAndSign\<rparr>,
                              \<lparr>share_user = 30, permission = View\<rparr>]\<rparr>"

definition shared_store_js :: store_js where
  "shared_store_js = sample_store_js\<lparr>documents_js := [7 \<mapsto> shared_contract_js]\<rparr>"

definition shared_once :: store_js where
  "shared_once = snd (shareDocument sample_env sample_store_js (Some 10) 7 ''bob@example.com'' View)"

definition shared_twice :: store_js where
  "shared_twice = snd (shareDocument sample_env shared_once (Some 10) 7 ''bob@example.com'' ViewAndSign)"

definition signed_once_js :: store_js where
  "signed_once_js =
     snd (applySignatures sample_env sample_store_js (Some 10) 7
            (Some ''data:image/png;base64,iVBORw0KGgo=''))"

definition signed_twice_js :: store_js where
  "signed_twice_js =
     snd (applySignatures (sample_env\<lparr>now := 1700000009999\<rparr>) signed_once_js (Some 10) 7
            (Some ''data:image/png;base64,AAAA''))"

definition signed_once :: store where
  "signed_once = snd (applySignature sample_env sample_store (Some 10) 7 image_body)"

definition signed_twice :: store where
  "signed_twice =
     snd (applySignature (sample_env\<lparr>now := 1700000009999\<rparr>) signed_once (Some 10) 7 image_body)"

section \<open>Validation and evaluation lemmas\<close>

lemma validate_page:
  assumes "validate b = Inr r"
  shows "pageNumber b = Some (req_page r) \<and> 1 \<le> req_page r"
  using assms
  by (auto simp: validate_def split: option.splits if_splits)

lemma validate_low_page:
  assumes "validate (b\<lparr>pageNumber := Some 1\<rparr>) = Inr r" and "pageNumber b = Some n" and "n < 1"
  shows "validate b = Inl (400, InvalidPageNumber)"
  using assms
  by (auto simp: validate_def split: option.splits if_splits)

lemma validate_text_body:
  "validate text_body = Inr \<lparr>req_data = ''John Doe'', req_position = (1100, 1560),
      req_dimensions = (1224, 1584), req_page = 1, req_type = ''text''\<rparr>"
  by (simp add: validate_def text_body_def trim_def white_def)

lemma validate_image_body:
  "validate image_body = Inr \<lparr>req_data = ''data:image/png;base64,iVBORw0KGgo='',
      req_position = (50, 100), req_dimensions = (300, 400), req_page = 1, req_type = ''draw''\<rparr>"
  by (simp add: validate_def image_body_def trim_def white_def startsWith_def toLowerCase_def)

lemma newFileName_contract:
  "newFileName sample_env contract = ''contract_signed_1700000000123.pdf''"
  by (simp add: newFileName_def sample_env_def contract_def extname_plain_def
      basename_plain_def string_of_nat.simps)

lemma newFilePath_contract:
  "newFilePath sample_env contract = ''/app/signed_documents/contract_signed_1700000000123.pdf''"
  by (simp add: newFilePath_def newFileName_contract) (simp add: sample_env_def)

lemma trim_contract_signed:
  "trim ''contract_signed_1700000000123.pdf'' = ''contract_signed_1700000000123.pdf''"
  by (simp add: trim_def white_def)

section \<open>The outcomes of \<open>applySignature\<close>\<close>

lemma persistSigned_cases:
  "persistSigned e st did doc modified =
    (if \<not> writeFile_ok e (newFilePath e doc) then (Inl (500, WriteFileError), st)
     else if \<not> save_ok e
       then (Inl (500, SaveError),
             st\<lparr>files := (files st)(newFilePath e doc \<mapsto> PdfBytes modified)\<rparr>)
     else (Inr \<lparr>documentId = did, newStatus = Signed\<rparr>,
           \<lparr>documents = (documents st)(did \<mapsto> signedVersion e doc),
            files = (files st)(newFilePath e doc \<mapsto> PdfBytes modified)\<rparr>))"
  by (simp add: persistSigned_def signedVersion_def Let_def)

text \<open>A success went through every check, wrote the file and then saved the record.\<close>

lemma applySignature_success:
  assumes "applySignature e st actor did b = (Inr resp, st')"
  shows "\<exists>doc r pages modified.
      actor = Some (user doc) \<and> validate b = Inr r \<and> documents st did = Some doc
      \<and> files st (filePath doc) = Some (PdfBytes pages) \<and> signPdf e r pages = Inr modified
      \<and> writeFile_ok e (newFilePath e doc) \<and> save_ok e
      \<and> resp = \<lparr>documentId = did, newStatus = Signed\<rparr>
      \<and> st' = \<lparr>documents = (documents st)(did \<mapsto> signedVersion e doc),
               files = (files st)(newFilePath e doc \<mapsto> PdfBytes modified)\<rparr>"
  using assms unfolding applySignature_def persistSigned_cases
  by (auto split: option.splits sum.splits if_splits file_bytes.splits)

text \<open>
  A failure leaves both stores as they were, except when the record could not be saved
  after the file had been written: then the new file stays behind.
\<close>

lemma applySignature_failure:
  assumes "applySignature e st actor did b = (Inl err, st')"
  shows "st' = st \<or> (\<exists>doc modified. documents st did = Some doc
      \<and> writeFile_ok e (newFilePath e doc) \<and> \<not> save_ok e
      \<and> st' = st\<lparr>files := (files st)(newFilePath e doc \<mapsto> PdfBytes modified)\<rparr>)"
  using assms unfolding applySignature_def persistSigned_cases
  by (auto split: option.splits sum.splits if_splits file_bytes.splits)

lemma applySignature_run:
  assumes "validate b = Inr r" "documents st did = Some doc"
    "files st (filePath doc) = Some (PdfBytes pages)" "signPdf e r pages = Inr modified"
  shows "applySignature e st (Some (user doc)) did b =
    (if \<not> writeFile_ok e (newFilePath e doc)
       then (Inl (500, FailedToApplySignature WriteFileError), st)
     else if \<not> save_ok e
       then (Inl (500, FailedToApplySignature SaveError),
             st\<lparr>files := (files st)(newFilePath e doc \<mapsto> PdfBytes modified)\<rparr>)
     else (Inr \<lparr>documentId = did, newStatus = Signed\<rparr>,
           \<lparr>documents = (documents st)(did \<mapsto> signedVersion e doc),
            files = (files st)(newFilePath e doc \<mapsto> PdfBytes modified)\<rparr>))"
  using assms unfolding applySignature_def persistSigned_cases
  by simp

lemma signedVersion_contract:
  "signedVersion sample_env contract =
     contract\<lparr>filePath := ''/app/signed_documents/contract_signed_1700000000123.pdf'',
              fileName := ''contract_signed_1700000000123.pdf'',
              status := Signed, lastSignedAt := Some 1700000000123\<rparr>"
  by (simp add: signedVersion_def newFilePath_contract newFileName_contract trim_contract_signed)
     (simp add: sample_env_def)

lemma sample_env_accepts: "writeFile_ok sample_env p" "save_ok sample_env"
  by (simp_all add: sample_env_def)

section \<open>Coordinate mapping\<close>

text \<open>
  For an image the mapping alone keeps a placement that lies inside the viewport inside the
  page: the rectangle is scaled by the same factors as the page.
\<close>

lemma imagePlacement_inside_page:
  assumes dims: "0 < fst dims" "0 < snd dims"
    and pg: "0 \<le> page_width pg" "0 \<le> page_height pg"
    and inside: "inside_viewport pos (frontendDisplayWidth, frontendDisplayHeight img) dims"
  shows "inside_page pg (imagePlacement img pos dims pg)"
proof -
  let ?sx = "scaleX pg dims" and ?sy = "scaleY pg dims"
  have pos: "0 \<le> fst pos" "0 \<le> snd pos"
    and w: "fst pos + frontendDisplayWidth \<le> fst dims"
    and h: "snd pos + frontendDisplayHeight img \<le> snd dims"
    using inside by (simp_all add: inside_viewport_def)
  have sx: "0 \<le> ?sx" and sy: "0 \<le> ?sy"
    using dims pg by (simp_all add: scaleX_def scaleY_def)
  have fullx: "fst dims * ?sx = page_width pg" and fully: "snd dims * ?sy = page_height pg"
    using dims by (simp_all add: scaleX_def scaleY_def)
  have "(fst pos + frontendDisplayWidth) * ?sx \<le> fst dims * ?sx"
    using w sx by (rule mult_right_mono)
  then have a: "fst pos * ?sx + frontendDisplayWidth * ?sx \<le> page_width pg"
    by (simp add: fullx distrib_right)
  have "(snd pos + frontendDisplayHeight img) * ?sy \<le> snd dims * ?sy"
    using h sy by (rule mult_right_mono)
  then have b: "snd pos * ?sy + frontendDisplayHeight img * ?sy \<le> page_height pg"
    by (simp add: fully distrib_right)
  have c: "0 \<le> fst pos * ?sx" "0 \<le> snd pos * ?sy"
    using pos sx sy by simp_all
  show ?thesis
    using a b c by (simp add: imagePlacement_def inside_page_def Let_def)
qed

text \<open>
  C1. The claim: for a placement rectangle inside the viewport the rectangle passed to the
  draw call lies inside the page, because the position is clamped before the artifact is
  drawn. In \<open>applySignature\<close> the clamp of lines 393--394 runs after \<open>drawText\<close> and
  \<open>drawImage\<close>, and its result is never used: the draw call receives the unclamped
  position. The request \<open>text_body\<close> places the typed signature ``John Doe'' at
  (1100, 1560) of a page shown 1224 by 1584. The font measures it 102.72 wide and 22.2
  high, so its box ends at (1202.72, 1582.2), inside the viewport. The operation succeeds,
  and the stored page holds the text at (550, -10.2): below the lower edge of the 612 by
  792 page and, 102.72 wide, across its right edge. The clamped position (509.28, 0), which
  the code computes afterwards, would have kept it inside.
\<close>

theorem applySignature_draws_unclamped:
  "widthOfTextAtSize sample_env ''John Doe'' fontSize = Some (2568 / 25)
   \<and> heightAtSize sample_env fontSize = 111 / 5
   \<and> inside_viewport (1100, 1560) (2568 / 25, 111 / 5) (1224, 1584)
   \<and> applySignature sample_env sample_store (Some 10) 7 text_body =
       (Inr \<lparr>documentId = 7, newStatus = Signed\<rparr>,
        \<lparr>documents =
           [7 \<mapsto> contract\<lparr>filePath := ''/app/signed_documents/contract_signed_1700000000123.pdf'',
                            fileName := ''contract_signed_1700000000123.pdf'',
                            status := Signed, lastSignedAt := Some 1700000000123\<rparr>],
         files =
           [''/app/uploads/1699-contract.pdf'' \<mapsto> PdfBytes [letter],
            ''/app/signed_documents/contract_signed_1700000000123.pdf'' \<mapsto>
               PdfBytes [letter\<lparr>content := [DrawText ''John Doe'' 550 (- 51 / 5) 24]\<rparr>]]\<rparr>)
   \<and> \<not> inside_page letter
         (textPlacement (2568 / 25) (111 / 5) (1100, 1560) (1224, 1584) letter)
   \<and> clamped letter (textPlacement (2568 / 25) (111 / 5) (1100, 1560) (1224, 1584) letter) =
        \<lparr>finalX = 12732 / 25, finalY = 0,
         finalSignatureWidth = 2568 / 25, finalSignatureHeight = 111 / 5\<rparr>
   \<and> inside_page letter
        (clamped letter (textPlacement (2568 / 25) (111 / 5) (1100, 1560) (1224, 1584) letter))"
proof -
  have width: "widthOfTextAtSize sample_env ''John Doe'' fontSize = Some (2568 / 25)"
    and height: "heightAtSize sample_env fontSize = 111 / 5"
    by (simp_all add: sample_env_def fontSize_def)
  have tp: "textPlacement (2568 / 25) (111 / 5) (1100, 1560) (1224, 1584) letter =
      \<lparr>finalX = 550, finalY = - 51 / 5,
       finalSignatureWidth = 2568 / 25, finalSignatureHeight = 111 / 5\<rparr>"
    by (simp add: textPlacement_def letter_def scaleX_def scaleY_def)
  have a: "inside_viewport (1100, 1560) (2568 / 25, 111 / 5) (1224, 1584)"
    by (simp add: inside_viewport_def)
  have draw: "signPdf sample_env \<lparr>req_data = ''John Doe'', req_position = (1100, 1560),
      req_dimensions = (1224, 1584), req_page = 1, req_type = ''text''\<rparr> [letter] =
      Inr [letter\<lparr>content := [DrawText ''John Doe'' 550 (- 51 / 5) 24]\<rparr>]"
    by (simp add: signPdf_def drawSignature_def width height tp Let_def)
       (simp add: letter_def fontSize_def)
  have run: "applySignature sample_env sample_store (Some 10) 7 text_body =
       (Inr \<lparr>documentId = 7, newStatus = Signed\<rparr>,
        \<lparr>documents =
           [7 \<mapsto> contract\<lparr>filePath := ''/app/signed_documents/contract_signed_1700000000123.pdf'',
                            fileName := ''contract_signed_1700000000123.pdf'',
                            status := Signed, lastSignedAt := Some 1700000000123\<rparr>],
         files =
           [''/app/uploads/1699-contract.pdf'' \<mapsto> PdfBytes [letter],
            ''/app/signed_documents/contract_signed_1700000000123.pdf'' \<mapsto>
               PdfBytes [letter\<lparr>content := [DrawText ''John Doe'' 550 (- 51 / 5) 24]\<rparr>]]\<rparr>)"
    using applySignature_run [OF validate_text_body _ _ draw, of sample_store 7 contract]
    by (simp add: sample_store_def signedVersion_contract newFilePath_contract sample_env_accepts)
       (simp add: contract_def)
  have b: "\<not> inside_page letter \<lparr>finalX = 550, finalY = - 51 / 5,
      finalSignatureWidth = 2568 / 25, finalSignatureHeight = 111 / 5\<rparr>"
    by (simp add: inside_page_def letter_def)
  have c: "clamped letter \<lparr>finalX = 550, finalY = - 51 / 5,
      finalSignatureWidth = 2568 / 25, finalSignatureHeight = 111 / 5\<rparr>
      = \<lparr>finalX = 12732 / 25, finalY = 0,
         finalSignatureWidth = 2568 / 25, finalSignatureHeight = 111 / 5\<rparr>"
    by (simp add: clamped_def letter_def)
  have d: "inside_page letter \<lparr>finalX = 12732 / 25, finalY = 0,
      finalSignatureWidth = 2568 / 25, finalSignatureHeight = 111 / 5\<rparr>"
    by (simp add: inside_page_def letter_def)
  show ?thesis
    using width height a run b c d by (simp only: tp simp_thms)
qed

text \<open>
  C5. A page of 612 by 792 points shown 300 by 400, and an image displayed 150 by 75 at
  (50, 100): the scale factors are 2.04 and 1.98, the draw call receives x = 102,
  y = 445.5, width = 306 and height = 148.5, and that rectangle lies inside the page.
\<close>

theorem applySignature_scenario_mapping:
  assumes pg: "page_width pg = 612" "page_height pg = 792"
    and r: "req_position r = (50, 100)" "req_dimensions r = (300, 400)" "req_type r = ''draw''"
    and d: "split_comma (req_data r) = header # base64ImagePart # rest"
           "startsWith (req_data r) ''data:image/png''"
    and img: "embedPng e base64ImagePart = Some img" "frontendDisplayHeight img = 75"
  shows "scaleX pg (300, 400) = 204 / 100 \<and> scaleY pg (300, 400) = 198 / 100
    \<and> imagePlacement img (50, 100) (300, 400) pg =
        \<lparr>finalX = 102, finalY = 4455 / 10,
         finalSignatureWidth = 306, finalSignatureHeight = 1485 / 10\<rparr>
    \<and> drawSignature e r pg =
        Inr (pg\<lparr>content := content pg @ [DrawImage img 102 (4455 / 10) 306 (1485 / 10) None]\<rparr>)
    \<and> inside_page pg (imagePlacement img (50, 100) (300, 400) pg)"
proof -
  have sx: "scaleX pg (300, 400) = 204 / 100" and sy: "scaleY pg (300, 400) = 198 / 100"
    using pg by (simp_all add: scaleX_def scaleY_def)
  have p: "imagePlacement img (50, 100) (300, 400) pg =
        \<lparr>finalX = 102, finalY = 4455 / 10,
         finalSignatureWidth = 306, finalSignatureHeight = 1485 / 10\<rparr>"
    using pg img(2) by (simp add: imagePlacement_def sx sy frontendDisplayWidth_def)
  have w: "image_width img \<noteq> 0"
    using img(2) by (auto simp: frontendDisplayHeight_def)
  have draw: "drawSignature e r pg =
        Inr (pg\<lparr>content := content pg @ [DrawImage img 102 (4455 / 10) 306 (1485 / 10) None]\<rparr>)"
    using r d img(1) w by (simp add: drawSignature_def p Let_def)
  have inside: "inside_page pg \<lparr>finalX = 102, finalY = 4455 / 10,
      finalSignatureWidth = 306, finalSignatureHeight = 1485 / 10\<rparr>"
    using pg by (simp add: inside_page_def)
  show ?thesis
    using sx sy p draw inside by simp
qed

theorem applySignature_scenario_mapping_witness:
  "drawSignature sample_env
      \<lparr>req_data = ''data:image/png;base64,iVBORw0KGgo='', req_position = (50, 100),
       req_dimensions = (300, 400), req_page = 1, req_type = ''draw''\<rparr> letter =
     Inr (letter\<lparr>content :=
            [DrawImage \<lparr>image_width = 300, image_height = 150\<rparr> 102 (4455 / 10) 306 (1485 / 10) None]\<rparr>)
   \<and> inside_page letter
        (imagePlacement \<lparr>image_width = 300, image_height = 150\<rparr> (50, 100) (300, 400) letter)"
proof -
  let ?r = "\<lparr>req_data = ''data:image/png;base64,iVBORw0KGgo='', req_position = (50, 100),
          req_dimensions = (300, 400), req_page = 1, req_type = ''draw''\<rparr>"
  let ?img = "\<lparr>image_width = 300, image_height = 150\<rparr>"
  have pg: "page_width letter = 612" "page_height letter = 792" "content letter = []"
    by (simp_all add: letter_def)
  have r: "req_position ?r = (50, 100)" "req_dimensions ?r = (300, 400)" "req_type ?r = ''draw''"
    by simp_all
  have d: "split_comma (req_data ?r) = ''data:image/png;base64'' # ''iVBORw0KGgo='' # []"
      "startsWith (req_data ?r) ''data:image/png''"
    by (simp_all add: startsWith_def)
  have img: "embedPng sample_env ''iVBORw0KGgo='' = Some ?img" "frontendDisplayHeight ?img = 75"
    by (simp_all add: sample_env_def frontendDisplayHeight_def frontendDisplayWidth_def)
  show ?thesis
    using applySignature_scenario_mapping [OF pg(1) pg(2) r d img] by (auto simp add: pg(3))
qed

section \<open>Page selection\<close>

text \<open>
  C6. A sign request whose page number is below 1 or above the page count of the stored
  PDF fails and leaves both stores as they were: no file is written, status and file
  pointer are unchanged. A number above the count is answered with status 400 and the
  out-of-bounds message once the request has passed validation and the owner check; a
  number below 1 is answered with status 400 by the page-number check of the validation.
\<close>

theorem applySignature_page_out_of_range:
  assumes doc: "documents st did = Some doc"
    and pdf: "files st (filePath doc) = Some (PdfBytes pages)"
    and n: "pageNumber b = Some n" "n < 1 \<or> real (length pages) < n"
  shows "(\<exists>err. applySignature e st actor did b = (Inl err, st))
    \<and> (actor = Some (user doc) \<and> \<not> n < 1 \<longrightarrow> (\<forall>r. validate b = Inr r \<longrightarrow>
          applySignature e st actor did b =
            (Inl (400, FailedToApplySignature (PageOutOfBounds n (length pages))), st)))
    \<and> (actor \<noteq> None \<and> n < 1 \<longrightarrow> (\<forall>r. validate (b\<lparr>pageNumber := Some 1\<rparr>) = Inr r \<longrightarrow>
          applySignature e st actor did b = (Inl (400, InvalidPageNumber), st)))"
proof -
  have reach: "signPdf e r pages = Inl (400, PageOutOfBounds n (length pages))"
    if "validate b = Inr r" for r
  proof -
    have "req_page r = n" and "1 \<le> n"
      using validate_page [OF that] n(1) by simp_all
    then show ?thesis
      using n(2) by (simp add: signPdf_def)
  qed
  have fails: "\<exists>err. applySignature e st actor did b = (Inl err, st)"
  proof (cases actor)
    case None
    then show ?thesis by (simp add: applySignature_def)
  next
    case (Some uid)
    show ?thesis
    proof (cases "validate b")
      case (Inl err)
      then show ?thesis using Some by (simp add: applySignature_def)
    next
      case (Inr r)
      then show ?thesis
        using Some doc pdf reach [OF Inr] by (simp add: applySignature_def)
    qed
  qed
  have high: "applySignature e st actor did b =
      (Inl (400, FailedToApplySignature (PageOutOfBounds n (length pages))), st)"
    if "actor = Some (user doc)" "validate b = Inr r" for r
    using that doc pdf reach [OF that(2)] by (simp add: applySignature_def)
  have low: "applySignature e st actor did b = (Inl (400, InvalidPageNumber), st)"
    if "actor \<noteq> None" "n < 1" "validate (b\<lparr>pageNumber := Some 1\<rparr>) = Inr r" for r
    using that(1) validate_low_page [OF that(3) n(1) that(2)]
    by (auto simp: applySignature_def)
  show ?thesis
    using fails high low by blast
qed

theorem applySignature_page_out_of_range_witness:
  "applySignature sample_env three_page_store (Some 10) 7 (image_body\<lparr>pageNumber := Some 5\<rparr>) =
     (Inl (400, FailedToApplySignature (PageOutOfBounds 5 3)), three_page_store)"
proof -
  have v: "validate (image_body\<lparr>pageNumber := Some 5\<rparr>) =
      Inr \<lparr>req_data = ''data:image/png;base64,iVBORw0KGgo='', req_position = (50, 100),
      req_dimensions = (300, 400), req_page = 5, req_type = ''draw''\<rparr>"
    by (simp add: validate_def image_body_def trim_def white_def startsWith_def toLowerCase_def)
  show ?thesis
    using applySignature_page_out_of_range [of three_page_store 7 contract
        "[letter, letter, letter]" "image_body\<lparr>pageNumber := Some 5\<rparr>" 5 sample_env "Some 10"]
    by (simp add: v three_page_store_def contract_def)
qed

section \<open>The outcomes of \<open>applySignatures\<close>\<close>

lemma applySignatures_success:
  assumes "applySignatures e st actor did body_signature = (Inr saved, st')"
  shows "\<exists>doc userId signature pages modified.
      body_signature = Some signature \<and> signature \<noteq> [] \<and> documents_js st did = Some doc
      \<and> actor = Some userId
      \<and> (owner doc = userId
          \<or> (\<exists>s \<in> set (sharedWith doc). share_user s = userId \<and> permission s = ViewAndSign))
      \<and> files_js st (filePath_js doc) = Some (PdfBytes pages)
      \<and> drawCentered e signature pages = Some modified
      \<and> writeFile_ok e (filePath_js doc) \<and> save_ok e
      \<and> saved = signedRecord e userId signature doc
      \<and> st' = \<lparr>documents_js = (documents_js st)(did \<mapsto> saved),
               files_js = (files_js st)(filePath_js doc \<mapsto> PdfBytes modified),
               users = users st\<rparr>"
  using assms unfolding applySignatures_def Let_def
  by (auto split: option.splits if_splits file_bytes.splits)

lemma applySignatures_failure:
  assumes "applySignatures e st actor did body_signature = (Inl err, st')"
  shows "st' = st \<or> (\<exists>doc modified. documents_js st did = Some doc
      \<and> writeFile_ok e (filePath_js doc) \<and> \<not> save_ok e
      \<and> st' = st\<lparr>files_js := (files_js st)(filePath_js doc \<mapsto> PdfBytes modified)\<rparr>)"
  using assms unfolding applySignatures_def Let_def
  by (auto split: option.splits if_splits file_bytes.splits)

lemma applySignatures_run:
  assumes "signature \<noteq> []" "documents_js st did = Some doc"
    "owner doc = userId
      \<or> (\<exists>s \<in> set (sharedWith doc). share_user s = userId \<and> permission s = ViewAndSign)"
    "files_js st (filePath_js doc) = Some (PdfBytes pages)"
    "drawCentered e signature pages = Some modified"
  shows "applySignatures e st (Some userId) did (Some signature) =
    (if \<not> writeFile_ok e (filePath_js doc) then (Inl (500, FailedToApplyToPdfDocument), st)
     else if \<not> save_ok e
       then (Inl (500, SaveError),
             st\<lparr>files_js := (files_js st)(filePath_js doc \<mapsto> PdfBytes modified)\<rparr>)
     else (Inr (signedRecord e userId signature doc),
           \<lparr>documents_js = (documents_js st)(did \<mapsto> signedRecord e userId signature doc),
            files_js = (files_js st)(filePath_js doc \<mapsto> PdfBytes modified),
            users = users st\<rparr>))"
  using assms unfolding applySignatures_def Let_def
  by auto


section \<open>Evaluation of the worked examples\<close>

lemma signPdf_image_letter:
  assumes "embedPng e ''iVBORw0KGgo='' = Some \<lparr>image_width = 300, image_height = 150\<rparr>"
  shows "signPdf e \<lparr>req_data = ''data:image/png;base64,iVBORw0KGgo='', req_position = (50, 100),
      req_dimensions = (300, 400), req_page = 1, req_type = ''draw''\<rparr> (letter # rest) =
    Inr (letter\<lparr>content := [DrawImage \<lparr>image_width = 300, image_height = 150\<rparr>
           102 (4455 / 10) 306 (1485 / 10) None]\<rparr> # rest)"
  using assms
  by (simp add: signPdf_def drawSignature_def startsWith_def imagePlacement_def scaleX_def
      scaleY_def frontendDisplayWidth_def frontendDisplayHeight_def letter_def Let_def)

lemma drawCentered_letter:
  assumes "embedPng e ''iVBORw0KGgo='' = Some \<lparr>image_width = 300, image_height = 150\<rparr>"
  shows "drawCentered e ''data:image/png;base64,iVBORw0KGgo='' (pg # rest) =
    Some (pg\<lparr>content := content pg @ [DrawImage \<lparr>image_width = 300, image_height = 150\<rparr>
           (page_width pg / 2 - 125) (page_height pg / 2 - 125 / 2) 250 125 (Some (9 / 10))]\<rparr> # rest)"
  using assms
  by (simp add: drawCentered_def startsWith_def signatureWidth_def signatureHeight_def Let_def)

lemma status_signedVersion: "status (signedVersion e doc) = Signed"
  by (simp add: signedVersion_def)

lemma sample_store_contract:
  "documents sample_store 7 = Some contract"
  "files sample_store (filePath contract) = Some (PdfBytes [letter])"
  "user contract = 10"
  "status contract = Pending"
  "filePath contract = ''/app/uploads/1699-contract.pdf''"
  by (simp_all add: sample_store_def contract_def)

lemma applySignature_image_body:
  "applySignature sample_env sample_store (Some 10) 7 image_body =
     (Inr \<lparr>documentId = 7, newStatus = Signed\<rparr>,
      \<lparr>documents = (documents sample_store)(7 \<mapsto> signedVersion sample_env contract),
       files = (files sample_store)(newFilePath sample_env contract \<mapsto>
         PdfBytes [letter\<lparr>content := [DrawImage \<lparr>image_width = 300, image_height = 150\<rparr>
           102 (4455 / 10) 306 (1485 / 10) None]\<rparr>])\<rparr>)"
proof -
  have draw: "signPdf sample_env \<lparr>req_data = ''data:image/png;base64,iVBORw0KGgo='',
      req_position = (50, 100), req_dimensions = (300, 400), req_page = 1, req_type = ''draw''\<rparr>
      [letter] = Inr [letter\<lparr>content := [DrawImage \<lparr>image_width = 300, image_height = 150\<rparr>
           102 (4455 / 10) 306 (1485 / 10) None]\<rparr>]"
    by (rule signPdf_image_letter) (simp add: sample_env_def)
  show ?thesis
    using applySignature_run [OF validate_image_body sample_store_contract(1)
        sample_store_contract(2) draw]
    by (simp add: sample_env_accepts sample_store_contract(3))
qed


section \<open>Ordering of the file write and the metadata update\<close>

text \<open>
  C3. In both controllers the record is assigned and saved only after the write of the PDF
  has returned. When the write fails the request fails and both stores are exactly as
  before: status, file location and signer entries are untouched. A request that reached
  the write is answered with status 500 (\<open>WriteFileError\<close> in \<open>applySignature\<close>, the
  fixed message of the catch block in \<open>applySignatures\<close>). Conversely, whenever a request
  changes the metadata collection, the write was accepted and the file is in place.
\<close>

theorem sign_record_updated_after_write:
  "(documents st did = Some doc \<and> \<not> writeFile_ok e (newFilePath e doc) \<longrightarrow>
      (\<exists>err. applySignature e st actor did b = (Inl err, st))
      \<and> (\<forall>r pages modified.
            actor = Some (user doc) \<and> validate b = Inr r
            \<and> files st (filePath doc) = Some (PdfBytes pages) \<and> signPdf e r pages = Inr modified
            \<longrightarrow> applySignature e st actor did b =
                  (Inl (500, FailedToApplySignature WriteFileError), st)))
   \<and> (documents (snd (applySignature e st actor did b)) \<noteq> documents st \<longrightarrow>
        (\<exists>doc modified. documents st did = Some doc \<and> writeFile_ok e (newFilePath e doc)
           \<and> files (snd (applySignature e st actor did b)) (newFilePath e doc) = Some (PdfBytes modified)
           \<and> documents (snd (applySignature e st actor did b)) =
               (documents st)(did \<mapsto> signedVersion e doc)))
   \<and> (documents_js st2 did2 = Some doc2 \<and> \<not> writeFile_ok e (filePath_js doc2) \<longrightarrow>
        (\<exists>err. applySignatures e st2 actor2 did2 sig = (Inl err, st2))
        \<and> (\<forall>userId signature pages modified.
              actor2 = Some userId \<and> sig = Some signature \<and> signature \<noteq> []
              \<and> (owner doc2 = userId
                  \<or> (\<exists>s \<in> set (sharedWith doc2). share_user s = userId \<and> permission s = ViewAndSign))
              \<and> files_js st2 (filePath_js doc2) = Some (PdfBytes pages)
              \<and> drawCentered e signature pages = Some modified
              \<longrightarrow> applySignatures e st2 actor2 did2 sig = (Inl (500, FailedToApplyToPdfDocument), st2)))
   \<and> (documents_js (snd (applySignatures e st2 actor2 did2 sig)) \<noteq> documents_js st2 \<longrightarrow>
        (\<exists>doc modified. documents_js st2 did2 = Some doc \<and> writeFile_ok e (filePath_js doc)
           \<and> files_js (snd (applySignatures e st2 actor2 did2 sig)) (filePath_js doc) =
                Some (PdfBytes modified)))"
proof -
  obtain res st' where ts: "applySignature e st actor did b = (res, st')"
    by (cases "applySignature e st actor did b")
  obtain res2 st2' where js: "applySignatures e st2 actor2 did2 sig = (res2, st2')"
    by (cases "applySignatures e st2 actor2 did2 sig")
  have a: "\<exists>err. applySignature e st actor did b = (Inl err, st)"
    if "documents st did = Some doc" "\<not> writeFile_ok e (newFilePath e doc)"
  proof (cases res)
    case (Inl err)
    then show ?thesis
      using applySignature_failure [of e st actor did b err st'] ts that by auto
  next
    case (Inr resp)
    then show ?thesis
      using applySignature_success [of e st actor did b resp st'] ts that by auto
  qed
  have b: "applySignature e st actor did b = (Inl (500, FailedToApplySignature WriteFileError), st)"
    if "documents st did = Some doc" "\<not> writeFile_ok e (newFilePath e doc)"
      "actor = Some (user doc)" "validate b = Inr r"
      "files st (filePath doc) = Some (PdfBytes pages)" "signPdf e r pages = Inr modified"
    for r pages modified
    using applySignature_run [OF that(4) that(1) that(5) that(6)] that(2) that(3) by simp
  have c: "\<exists>doc modified. documents st did = Some doc \<and> writeFile_ok e (newFilePath e doc)
           \<and> files st' (newFilePath e doc) = Some (PdfBytes modified)
           \<and> documents st' = (documents st)(did \<mapsto> signedVersion e doc)"
    if "documents st' \<noteq> documents st"
  proof (cases res)
    case (Inl err)
    then show ?thesis
      using applySignature_failure [of e st actor did b err st'] ts that by auto
  next
    case (Inr resp)
    then show ?thesis
      using applySignature_success [of e st actor did b resp st'] ts by auto
  qed
  have a2: "\<exists>err. applySignatures e st2 actor2 did2 sig = (Inl err, st2)"
    if "documents_js st2 did2 = Some doc2" "\<not> writeFile_ok e (filePath_js doc2)"
  proof (cases res2)
    case (Inl err)
    then show ?thesis
      using applySignatures_failure [of e st2 actor2 did2 sig err st2'] js that by auto
  next
    case (Inr saved)
    then show ?thesis
      using applySignatures_success [of e st2 actor2 did2 sig saved st2'] js that by auto
  qed
  have b2: "applySignatures e st2 actor2 did2 sig = (Inl (500, FailedToApplyToPdfDocument), st2)"
    if "documents_js st2 did2 = Some doc2" "\<not> writeFile_ok e (filePath_js doc2)"
      "actor2 = Some userId" "sig = Some signature" "signature \<noteq> []"
      "owner doc2 = userId
        \<or> (\<exists>s \<in> set (sharedWith doc2). share_user s = userId \<and> permission s = ViewAndSign)"
      "files_js st2 (filePath_js doc2) = Some (PdfBytes pages)"
      "drawCentered e signature pages = Some modified"
    for userId signature pages modified
    using applySignatures_run [OF that(5) that(1) that(6) that(7) that(8)] that(2) that(3) that(4)
    by simp
  have c2: "\<exists>doc modified. documents_js st2 did2 = Some doc \<and> writeFile_ok e (filePath_js doc)
           \<and> files_js st2' (filePath_js doc) = Some (PdfBytes modified)"
    if "documents_js st2' \<noteq> documents_js st2"
  proof (cases res2)
    case (Inl err)
    then show ?thesis
      using applySignatures_failure [of e st2 actor2 did2 sig err st2'] js that by auto
  next
    case (Inr saved)
    then show ?thesis
      using applySignatures_success [of e st2 actor2 did2 sig saved st2'] js by auto
  qed
  show ?thesis
    using a b c a2 b2 c2 unfolding ts js snd_conv by blast
qed

theorem sign_record_updated_after_write_witness:
  "applySignature (sample_env\<lparr>writeFile_ok := (\<lambda>p. False)\<rparr>) sample_store (Some 10) 7 image_body =
      (Inl (500, FailedToApplySignature WriteFileError), sample_store)
   \<and> writeFile_ok sample_env (newFilePath sample_env contract)
   \<and> documents (snd (applySignature sample_env sample_store (Some 10) 7 image_body)) =
       (documents sample_store)(7 \<mapsto> signedVersion sample_env contract)"
proof -
  let ?bad = "sample_env\<lparr>writeFile_ok := (\<lambda>p. False)\<rparr>"
  let ?r = "\<lparr>req_data = ''data:image/png;base64,iVBORw0KGgo='', req_position = (50, 100),
      req_dimensions = (300, 400), req_page = 1, req_type = ''draw''\<rparr>"
  let ?m = "[letter\<lparr>content := [DrawImage \<lparr>image_width = 300, image_height = 150\<rparr>
           102 (4455 / 10) 306 (1485 / 10) None]\<rparr>]"
  note doc = sample_store_contract(1) and pdf = sample_store_contract(2)
  have own: "Some 10 = Some (user contract)"
    by (simp add: sample_store_contract(3))
  have bad: "\<not> writeFile_ok ?bad (newFilePath ?bad contract)"
    by simp
  have draw_bad: "signPdf ?bad ?r [letter] = Inr ?m"
    by (rule signPdf_image_letter) (simp add: sample_env_def)
  have first: "applySignature ?bad sample_store (Some 10) 7 image_body =
      (Inl (500, FailedToApplySignature WriteFileError), sample_store)"
    using sign_record_updated_after_write [of sample_store 7 contract ?bad "Some 10" image_body]
      doc pdf own bad draw_bad validate_image_body
    by blast
  have "documents (snd (applySignature sample_env sample_store (Some 10) 7 image_body)) 7
      \<noteq> documents sample_store 7"
    using status_signedVersion [of sample_env contract]
    by (auto simp add: applySignature_image_body doc sample_store_contract(4))
  then have changed: "documents (snd (applySignature sample_env sample_store (Some 10) 7 image_body))
      \<noteq> documents sample_store"
    by metis
  have "documents (snd (applySignature sample_env sample_store (Some 10) 7 image_body))
      \<noteq> documents sample_store \<longrightarrow>
        (\<exists>doc modified. documents sample_store 7 = Some doc
           \<and> writeFile_ok sample_env (newFilePath sample_env doc)
           \<and> files (snd (applySignature sample_env sample_store (Some 10) 7 image_body))
                (newFilePath sample_env doc) = Some (PdfBytes modified)
           \<and> documents (snd (applySignature sample_env sample_store (Some 10) 7 image_body)) =
               (documents sample_store)(7 \<mapsto> signedVersion sample_env doc))"
    by (rule sign_record_updated_after_write [of sample_store 7 contract sample_env "Some 10"
          image_body, THEN conjunct2, THEN conjunct1])
  then obtain d where "documents sample_store 7 = Some d"
      "writeFile_ok sample_env (newFilePath sample_env d)"
      "documents (snd (applySignature sample_env sample_store (Some 10) 7 image_body)) =
               (documents sample_store)(7 \<mapsto> signedVersion sample_env d)"
    using changed by blast
  then have second: "writeFile_ok sample_env (newFilePath sample_env contract)
      \<and> documents (snd (applySignature sample_env sample_store (Some 10) 7 image_body)) =
       (documents sample_store)(7 \<mapsto> signedVersion sample_env contract)"
    using doc by simp
  show ?thesis
    using first second by (rule conjI)
qed

section \<open>Versioning\<close>

text \<open>
  C4, as amended. A successful \<open>applySignature\<close> writes the new version to the file
  \<^verbatim>\<open>SIGNED_DOCS_DIR/<base of originalName>_signed_<Date.now()>.pdf\<close>, points the record at
  it, and leaves every other file as it was: nothing is deleted, and the file previously
  pointed to is untouched whenever its path differs from the new one. The name is built
  from \<open>originalName\<close>, not from \<open>fileName\<close>.
\<close>

theorem applySignature_writes_new_version:
  assumes "applySignature e st actor did b = (Inr resp, st')"
  shows "\<exists>doc modified. documents st did = Some doc
     \<and> newFilePath e doc =
         path_join e (SIGNED_DOCS_DIR e)
           (path_basename e (originalName doc) (path_extname e (originalName doc))
              @ ''_signed_'' @ string_of_nat (now e) @ ''.pdf'')
     \<and> files st' (newFilePath e doc) = Some (PdfBytes modified)
     \<and> (\<forall>p. p \<noteq> newFilePath e doc \<longrightarrow> files st' p = files st p)
     \<and> (filePath doc \<noteq> newFilePath e doc \<longrightarrow> files st' (filePath doc) = files st (filePath doc))
     \<and> documents st' did = Some (signedVersion e doc)
     \<and> filePath (signedVersion e doc) = newFilePath e doc"
proof -
  obtain doc r pages modified where
    "documents st did = Some doc"
    "st' = \<lparr>documents = (documents st)(did \<mapsto> signedVersion e doc),
            files = (files st)(newFilePath e doc \<mapsto> PdfBytes modified)\<rparr>"
    using applySignature_success [OF assms] by blast
  then show ?thesis
    by (auto simp: newFilePath_def newFileName_def signedVersion_def Let_def)
qed

theorem applySignature_writes_new_version_witness:
  "newFilePath sample_env contract = ''/app/signed_documents/contract_signed_1700000000123.pdf''
   \<and> files (snd (applySignature sample_env sample_store (Some 10) 7 image_body))
        ''/app/uploads/1699-contract.pdf'' = Some (PdfBytes [letter])
   \<and> documents (snd (applySignature sample_env sample_store (Some 10) 7 image_body)) 7 =
        Some (signedVersion sample_env contract)"
proof -
  let ?r = "\<lparr>req_data = ''data:image/png;base64,iVBORw0KGgo='', req_position = (50, 100),
      req_dimensions = (300, 400), req_page = 1, req_type = ''draw''\<rparr>"
  let ?m = "[letter\<lparr>content := [DrawImage \<lparr>image_width = 300, image_height = 150\<rparr>
           102 (4455 / 10) 306 (1485 / 10) None]\<rparr>]"
  have doc: "documents sample_store 7 = Some contract"
    and pdf: "files sample_store (filePath contract) = Some (PdfBytes [letter])"
    and old: "files sample_store ''/app/uploads/1699-contract.pdf'' = Some (PdfBytes [letter])"
    and own: "user contract = 10" and fp: "filePath contract = ''/app/uploads/1699-contract.pdf''"
    by (simp_all add: sample_store_def contract_def)
  have draw: "signPdf sample_env ?r [letter] = Inr ?m"
    by (rule signPdf_image_letter) (simp add: sample_env_def)
  obtain st' where run: "applySignature sample_env sample_store (Some 10) 7 image_body =
      (Inr \<lparr>documentId = 7, newStatus = Signed\<rparr>, st')"
    using applySignature_run [OF validate_image_body doc pdf draw] own
    by (simp add: sample_env_accepts)
  show ?thesis
    using applySignature_writes_new_version [OF run] doc old fp
    by (auto simp: run newFilePath_contract)
qed

text \<open>
  The claim as stated fails on \<open>applySignatures\<close>, which writes the signed bytes over
  \<open>document.filePath\<close>: after a successful request the store holds the same single path,
  now with the signed page, and the record still points to it.
\<close>

theorem applySignatures_overwrites_current_file:
  "files_js sample_store_js ''/app/uploads/1699-contract.pdf'' = Some (PdfBytes [letter])
   \<and> applySignatures sample_env sample_store_js (Some 10) 7
        (Some ''data:image/png;base64,iVBORw0KGgo='') =
      (Inr (contract_js\<lparr>status_js := ''signed'',
             signedBy := [\<lparr>signer_user = 10, signedAt = 1700000000123,
                           signatureImage = ''data:image/png;base64,iVBORw0KGgo=''\<rparr>]\<rparr>),
       \<lparr>documents_js = [7 \<mapsto> contract_js\<lparr>status_js := ''signed'',
             signedBy := [\<lparr>signer_user = 10, signedAt = 1700000000123,
                           signatureImage = ''data:image/png;base64,iVBORw0KGgo=''\<rparr>]\<rparr>],
        files_js = [''/app/uploads/1699-contract.pdf'' \<mapsto>
           PdfBytes [letter\<lparr>content := [DrawImage \<lparr>image_width = 300, image_height = 150\<rparr>
              181 (667 / 2) 250 125 (Some (9 / 10))]\<rparr>]],
        users = [''alice@example.com'' \<mapsto> 10, ''bob@example.com'' \<mapsto> 20]\<rparr>)"
proof -
  have doc: "documents_js sample_store_js 7 = Some contract_js"
    and pdf: "files_js sample_store_js (filePath_js contract_js) = Some (PdfBytes [letter])"
    and own: "owner contract_js = 10
        \<or> (\<exists>s \<in> set (sharedWith contract_js). share_user s = 10 \<and> permission s = ViewAndSign)"
    by (simp_all add: sample_store_js_def contract_js_def)
  have draw: "drawCentered sample_env ''data:image/png;base64,iVBORw0KGgo='' [letter] =
      Some [letter\<lparr>content := [DrawImage \<lparr>image_width = 300, image_height = 150\<rparr>
              181 (667 / 2) 250 125 (Some (9 / 10))]\<rparr>]"
    using drawCentered_letter [of sample_env letter "[]"]
    by (simp add: sample_env_def letter_def)
  have entry: "signedRecord sample_env 10 ''data:image/png;base64,iVBORw0KGgo='' contract_js =
      contract_js\<lparr>status_js := ''signed'',
             signedBy := [\<lparr>signer_user = 10, signedAt = 1700000000123,
                           signatureImage = ''data:image/png;base64,iVBORw0KGgo=''\<rparr>]\<rparr>"
    by (simp add: signedRecord_def recordSigner_def contract_js_def sample_env_def)
  have "applySignatures sample_env sample_store_js (Some 10) 7
        (Some ''data:image/png;base64,iVBORw0KGgo='') =
      (Inr (signedRecord sample_env 10 ''data:image/png;base64,iVBORw0KGgo='' contract_js),
       \<lparr>documents_js = (documents_js sample_store_js)(7 \<mapsto>
            signedRecord sample_env 10 ''data:image/png;base64,iVBORw0KGgo='' contract_js),
        files_js = (files_js sample_store_js)(filePath_js contract_js \<mapsto>
           PdfBytes [letter\<lparr>content := [DrawImage \<lparr>image_width = 300, image_height = 150\<rparr>
              181 (667 / 2) 250 125 (Some (9 / 10))]\<rparr>]),
        users = users sample_store_js\<rparr>)"
    using applySignatures_run [OF _ doc own pdf draw] by (simp add: sample_env_accepts)
  then show ?thesis
    by (simp add: entry) (simp add: sample_store_js_def contract_js_def)
qed


section \<open>Status transitions\<close>

lemma uploadDocument_ts_others:
  assumes "new_id \<noteq> did"
  shows "documents (snd (uploadDocument_ts e st actor file new_id)) did = documents st did"
  using assms by (auto simp: uploadDocument_ts_def Let_def split: option.splits)

lemma deleteDocument_keeps:
  assumes "documents (snd (deleteDocument e st actor d)) did = Some doc'"
  shows "documents st did = Some doc'"
  using assms
  by (auto simp: deleteDocument_def Let_def split: option.splits if_splits)

lemma applySignature_others:
  assumes "d \<noteq> did"
  shows "documents (snd (applySignature e st actor d b)) did = documents st did"
proof (cases "applySignature e st actor d b")
  case (Pair res st')
  show ?thesis
  proof (cases res)
    case (Inl err)
    then show ?thesis
      using applySignature_failure [of e st actor d b err st'] Pair by auto
  next
    case (Inr resp)
    then show ?thesis
      using applySignature_success [of e st actor d b resp st'] Pair assms by auto
  qed
qed

lemma updateDocument_others:
  assumes "d \<noteq> did"
  shows "documents (snd (updateDocument e st actor d body_status)) did = documents st did"
  using assms
  by (auto simp: updateDocument_def Let_def split: option.splits if_splits)

lemma updateDocument_status:
  assumes "documents st did = Some doc"
    and "updateDocument e st actor did body_status = (res, st')"
    and "documents st' did = Some doc'"
  shows "status doc' = status doc
     \<or> (actor = Some (user doc)
         \<and> (\<exists>v. body_status = Some v \<and> status_of_string v = Some (status doc')))"
  using assms unfolding updateDocument_def Let_def
  by (auto split: option.splits if_splits)

lemma handle_status:
  assumes doc: "documents st did = Some doc"
    and after: "documents (handle e st actor req) did = Some doc'"
    and fresh: "\<forall>file n. req = Upload file n \<longrightarrow> n \<noteq> did"
  shows "status doc' = status doc
     \<or> (actor = Some (user doc)
         \<and> ((\<exists>b. req = Sign did b \<and> status doc' = Signed)
             \<or> (\<exists>v. req = Update did (Some v) \<and> status_of_string v = Some (status doc'))))"
proof (cases req)
  case (Upload f n)
  then have "n \<noteq> did" using fresh by simp
  then show ?thesis
    using uploadDocument_ts_others [of n did e st actor f] after doc Upload by simp
next
  case (Delete d)
  then show ?thesis
    using deleteDocument_keeps [of e st actor d did doc'] after doc by simp
next
  case (Sign d b)
  show ?thesis
  proof (cases "d = did")
    case False
    then show ?thesis
      using applySignature_others [of d did e st actor b] after doc Sign by simp
  next
    case True
    obtain res st' where run: "applySignature e st actor did b = (res, st')"
      by (cases "applySignature e st actor did b")
    then have saved: "documents st' did = Some doc'"
      using after Sign True by simp
    show ?thesis
    proof (cases res)
      case (Inl err)
      then show ?thesis
        using applySignature_failure [of e st actor did b err st'] run saved doc by auto
    next
      case (Inr resp)
      then show ?thesis
        using applySignature_success [of e st actor did b resp st'] run saved doc Sign True
        by (auto simp: signedVersion_def)
    qed
  qed
next
  case (Update d body_status)
  show ?thesis
  proof (cases "d = did")
    case False
    then show ?thesis
      using updateDocument_others [of d did e st actor body_status] after doc Update by simp
  next
    case True
    obtain res st' where run: "updateDocument e st actor did body_status = (res, st')"
      by (cases "updateDocument e st actor did body_status")
    then have saved: "documents st' did = Some doc'"
      using after Update True by simp
    show ?thesis
      using updateDocument_status [OF doc run saved] Update True by auto
  qed
qed

text \<open>
  C9, as amended. Of the requests that change a store, an upload and a delete leave the
  status of every remaining record alone; \<open>applySignature\<close> sets it to \<open>Signed\<close> whatever
  it was; and by \<open>updateDocument\<close> the owner sets it to any value of the schema's enum
  whatever it was, so that every transition between the four values is possible. A request
  of another actor changes no status.
\<close>

theorem status_changes_by_sign_and_update:
  assumes doc: "documents st did = Some doc"
  shows "(\<forall>req doc'. documents (handle e st actor req) did = Some doc'
            \<and> (\<forall>f n. req = Upload f n \<longrightarrow> n \<noteq> did) \<longrightarrow>
            status doc' = status doc
            \<or> (actor = Some (user doc)
                \<and> ((\<exists>b. req = Sign did b \<and> status doc' = Signed)
                    \<or> (\<exists>v. req = Update did (Some v)
                           \<and> status_of_string v = Some (status doc')))))
    \<and> (\<forall>v s. save_ok e \<and> status_of_string v = Some s \<longrightarrow>
          updateDocument e st (Some (user doc)) did (Some v) =
            (Inr (doc\<lparr>status := s\<rparr>), st\<lparr>documents := (documents st)(did \<mapsto> doc\<lparr>status := s\<rparr>)\<rparr>))
    \<and> (\<forall>resp st'. applySignature e st actor did b = (Inr resp, st') \<longrightarrow>
          documents st' did = Some (signedVersion e doc)
          \<and> status (signedVersion e doc) = Signed)"
proof (intro conjI allI impI)
  fix req doc'
  assume "documents (handle e st actor req) did = Some doc'
            \<and> (\<forall>f n. req = Upload f n \<longrightarrow> n \<noteq> did)"
  then show "status doc' = status doc
            \<or> (actor = Some (user doc)
                \<and> ((\<exists>b. req = Sign did b \<and> status doc' = Signed)
                    \<or> (\<exists>v. req = Update did (Some v)
                           \<and> status_of_string v = Some (status doc'))))"
    using handle_status [OF doc, of e actor req doc'] by blast
next
  fix v s
  assume ok: "save_ok e \<and> status_of_string v = Some s"
  then have "v \<noteq> []"
    by (auto simp: status_of_string_def)
  then show "updateDocument e st (Some (user doc)) did (Some v) =
            (Inr (doc\<lparr>status := s\<rparr>), st\<lparr>documents := (documents st)(did \<mapsto> doc\<lparr>status := s\<rparr>)\<rparr>)"
    using ok doc by (simp add: updateDocument_def Let_def)
next
  fix resp st'
  assume "applySignature e st actor did b = (Inr resp, st')"
  from applySignature_success [OF this] doc
  show "documents st' did = Some (signedVersion e doc)"
    by auto
next
  fix resp st'
  show "status (signedVersion e doc) = Signed"
    by (simp add: signedVersion_def)
qed

theorem status_changes_by_sign_and_update_witness:
  "updateDocument sample_env signed_store (Some 10) 7 (Some ''archived'') =
     (Inr (contract\<lparr>status := Archived\<rparr>),
      signed_store\<lparr>documents := (documents signed_store)(7 \<mapsto> contract\<lparr>status := Archived\<rparr>)\<rparr>)"
proof -
  have doc: "documents signed_store 7 = Some (contract\<lparr>status := Signed\<rparr>)"
    by (simp add: signed_store_def)
  have parse: "status_of_string ''archived'' = Some Archived"
    by (simp add: status_of_string_def)
  have own: "user (contract\<lparr>status := Signed\<rparr>) = 10"
    by (simp add: contract_def)
  have "updateDocument sample_env signed_store (Some (user (contract\<lparr>status := Signed\<rparr>))) 7
      (Some ''archived'') =
     (Inr (contract\<lparr>status := Signed\<rparr>\<lparr>status := Archived\<rparr>),
      signed_store\<lparr>documents := (documents signed_store)(7 \<mapsto>
         contract\<lparr>status := Signed\<rparr>\<lparr>status := Archived\<rparr>)\<rparr>)"
    using status_changes_by_sign_and_update [OF doc, of sample_env, THEN conjunct2, THEN conjunct1]
      sample_env_accepts(2) parse
    by blast
  then show ?thesis
    by (simp add: own)
qed

text \<open>
  The claim as stated fails: the owner's \<open>updateDocument\<close> with status \<^verbatim>\<open>pending\<close> moves a
  signed document back to pending.
\<close>

theorem updateDocument_signed_to_pending:
  "documents signed_store 7 = Some (contract\<lparr>status := Signed\<rparr>)
   \<and> updateDocument sample_env signed_store (Some 10) 7 (Some ''pending'') =
       (Inr (contract\<lparr>status := Pending\<rparr>),
        \<lparr>documents = [7 \<mapsto> contract\<lparr>status := Pending\<rparr>],
         files = [''/app/uploads/1699-contract.pdf'' \<mapsto> PdfBytes [letter]]\<rparr>)"
  by (simp add: updateDocument_def signed_store_def status_of_string_def sample_env_accepts Let_def)
     (simp add: contract_def)


section \<open>Signer entries and share lists\<close>

lemma findIndex_lower: "- 1 \<le> findIndex P xs"
  by (induction xs) (auto simp: Let_def)

lemma recordSigner_Nil:
  "recordSigner u t sig [] = [\<lparr>signer_user = u, signedAt = t, signatureImage = sig\<rparr>]"
  by (simp add: recordSigner_def)

lemma recordSigner_Cons:
  "recordSigner u t sig (x # xs) =
     (if signer_user x = u then x\<lparr>signedAt := t, signatureImage := sig\<rparr> # xs
      else x # recordSigner u t sig xs)"
proof (cases "signer_user x = u")
  case True
  then show ?thesis by (simp add: recordSigner_def)
next
  case False
  let ?i = "findIndex (\<lambda>s. signer_user s = u) xs"
  show ?thesis
  proof (cases "?i > - 1")
    case True
    then have "nat (?i + 1) = Suc (nat ?i)"
      by simp
    then show ?thesis
      using False True by (simp add: recordSigner_def Let_def)
  next
    case neg: False
    then show ?thesis
      using False by (simp add: recordSigner_def Let_def)
  qed
qed

lemma recordSigner_users:
  "map signer_user (recordSigner u t sig xs) =
     (if u \<in> set (map signer_user xs) then map signer_user xs else map signer_user xs @ [u])"
proof (induction xs)
  case Nil
  then show ?case by (simp add: recordSigner_Nil)
next
  case (Cons x xs)
  show ?case
  proof (cases "signer_user x = u")
    case True
    then show ?thesis by (simp add: recordSigner_Cons)
  next
    case False
    then have "u \<noteq> signer_user x" by blast
    then show ?thesis
      using False Cons.IH by (simp add: recordSigner_Cons)
  qed
qed

lemma recordSigner_distinct:
  "distinct (map signer_user xs) \<Longrightarrow> distinct (map signer_user (recordSigner u t sig xs))"
  by (simp add: recordSigner_users)

lemma recordSigner_entry:
  "distinct (map signer_user xs) \<Longrightarrow>
     filter (\<lambda>s. signer_user s = u) (recordSigner u t sig xs) =
       [\<lparr>signer_user = u, signedAt = t, signatureImage = sig\<rparr>]"
proof (induction xs)
  case Nil
  then show ?case by (simp add: recordSigner_Nil)
next
  case (Cons x xs)
  show ?case
  proof (cases "signer_user x = u")
    case True
    then have "u \<notin> signer_user ` set xs"
      using Cons.prems by simp
    then have "filter (\<lambda>s. signer_user s = u) xs = []"
      unfolding filter_empty_conv by blast
    then show ?thesis
      using True by (simp add: recordSigner_Cons)
  next
    case False
    then show ?thesis
      using Cons by (simp add: recordSigner_Cons)
  qed
qed

lemma recordSigner_again:
  "length (recordSigner u t2 sig2 (recordSigner u t1 sig1 xs)) = length (recordSigner u t1 sig1 xs)"
proof -
  have "length (map signer_user (recordSigner u t2 sig2 (recordSigner u t1 sig1 xs)))
      = length (map signer_user (recordSigner u t1 sig1 xs))"
    unfolding recordSigner_users [of u t2 sig2] by (simp add: recordSigner_users)
  then show ?thesis by simp
qed

lemma sharedAfter_users:
  "map share_user (sharedAfter g perm xs) =
     (if g \<in> set (map share_user xs) then map share_user xs else map share_user xs @ [g])"
proof -
  have "map share_user (map (\<lambda>s. if share_user s = g then \<lparr>share_user = g, permission = perm\<rparr> else s) xs)
      = map share_user xs"
    by (induction xs) auto
  then show ?thesis
    by (auto simp: sharedAfter_def)
qed

lemma sharedAfter_distinct:
  "distinct (map share_user xs) \<Longrightarrow> distinct (map share_user (sharedAfter g perm xs))"
  by (simp add: sharedAfter_users)

lemma sharedAfter_grant:
  assumes "distinct (map share_user xs)"
  shows "filter (\<lambda>s. share_user s = g) (sharedAfter g perm xs) = [\<lparr>share_user = g, permission = perm\<rparr>]"
proof (cases "\<exists>s \<in> set xs. share_user s = g")
  case False
  then have "filter (\<lambda>s. share_user s = g) xs = []"
    by (auto simp: filter_empty_conv)
  then show ?thesis
    using False by (simp add: sharedAfter_def)
next
  case True
  have "g \<in> set (map share_user xs) \<Longrightarrow> distinct (map share_user xs) \<Longrightarrow>
      filter (\<lambda>s. share_user s = g)
        (map (\<lambda>s. if share_user s = g then \<lparr>share_user = g, permission = perm\<rparr> else s) xs)
      = [\<lparr>share_user = g, permission = perm\<rparr>]"
  proof (induction xs)
    case Nil
    then show ?case by simp
  next
    case (Cons x xs)
    show ?case
    proof (cases "share_user x = g")
      case True
      then have "g \<notin> share_user ` set xs"
        using Cons.prems(2) by simp
      then have "\<forall>s \<in> set xs. share_user s \<noteq> g"
        by blast
      then have "map (\<lambda>s. if share_user s = g then \<lparr>share_user = g, permission = perm\<rparr> else s) xs = xs"
        by (simp add: map_idI)
      moreover have "filter (\<lambda>s. share_user s = g) xs = []"
        unfolding filter_empty_conv using \<open>\<forall>s \<in> set xs. share_user s \<noteq> g\<close> by blast
      ultimately have "filter (\<lambda>s. share_user s = g)
           (map (\<lambda>s. if share_user s = g then \<lparr>share_user = g, permission = perm\<rparr> else s) xs) = []"
        by simp
      then show ?thesis
        using True by simp
    next
      case False
      then show ?thesis
        using Cons by auto
    qed
  qed
  then show ?thesis
    using True assms by (auto simp: sharedAfter_def)
qed

lemma sharedAfter_again:
  "length (sharedAfter g p2 (sharedAfter g p1 xs)) = length (sharedAfter g p1 xs)"
proof -
  have "length (map share_user (sharedAfter g p2 (sharedAfter g p1 xs)))
      = length (map share_user (sharedAfter g p1 xs))"
    unfolding sharedAfter_users [of g p2] by (simp add: sharedAfter_users)
  then show ?thesis by simp
qed

lemma sharedAfter_others:
  "g \<noteq> h \<Longrightarrow> h \<notin> set (map share_user xs) \<Longrightarrow> h \<notin> set (map share_user (sharedAfter g perm xs))"
  by (simp add: sharedAfter_users)

lemma sharedAfter_member: "g \<in> set (map share_user (sharedAfter g perm xs))"
  by (simp add: sharedAfter_users)

lemma sample_store_js_contract:
  "documents_js sample_store_js 7 = Some contract_js"
  "files_js sample_store_js (filePath_js contract_js) = Some (PdfBytes [letter])"
  "users sample_store_js ''bob@example.com'' = Some 20"
  "users sample_store_js ''alice@example.com'' = Some 10"
  "owner contract_js = 10"
  "sharedWith contract_js = []"
  "signedBy contract_js = []"
  by (simp_all add: sample_store_js_def contract_js_def)

section \<open>The outcomes of \<open>shareDocument\<close>\<close>

lemma shareDocument_success:
  assumes "shareDocument e st actor did email perm = (Inr (outcome, saved), st')"
  shows "\<exists>doc g. documents_js st did = Some doc \<and> actor = Some (owner doc)
      \<and> users st email = Some g \<and> g \<noteq> owner doc \<and> save_ok e
      \<and> outcome = (if \<exists>s \<in> set (sharedWith doc). share_user s = g
                   then PermissionUpdated else SharedSuccessfully)
      \<and> saved = doc\<lparr>sharedWith := sharedAfter g perm (sharedWith doc)\<rparr>
      \<and> st' = st\<lparr>documents_js := (documents_js st)(did \<mapsto> saved)\<rparr>"
  using assms unfolding shareDocument_def Let_def sharedAfter_def
  by (auto split: option.splits if_splits)

lemma shareDocument_failure:
  assumes "shareDocument e st actor did email perm = (Inl err, st')"
  shows "st' = st"
  using assms unfolding shareDocument_def Let_def
  by (auto split: option.splits if_splits)

lemma shareDocument_run:
  assumes "documents_js st did = Some doc" "users st email = Some g" "g \<noteq> owner doc" "save_ok e"
  shows "shareDocument e st (Some (owner doc)) did email perm =
     (Inr (if \<exists>s \<in> set (sharedWith doc). share_user s = g
           then PermissionUpdated else SharedSuccessfully,
           doc\<lparr>sharedWith := sharedAfter g perm (sharedWith doc)\<rparr>),
      st\<lparr>documents_js := (documents_js st)(did \<mapsto>
           doc\<lparr>sharedWith := sharedAfter g perm (sharedWith doc)\<rparr>)\<rparr>)"
  using assms unfolding shareDocument_def Let_def sharedAfter_def
  by auto

text \<open>Every operation of the JavaScript controller keeps a record well formed.\<close>

lemma uploadDocument_well_formed:
  assumes "uploadDocument st uid file new_id = (Inr doc, st')"
  shows "well_formed doc \<and> documents_js st' new_id = Some doc"
  using assms by (auto simp: uploadDocument_def well_formed_def Let_def split: option.splits)

lemma shareDocument_well_formed:
  assumes doc: "documents_js st did = Some doc" and wf: "well_formed doc"
    and saved: "documents_js (snd (shareDocument e st actor did email perm)) did = Some saved"
  shows "well_formed saved"
proof (cases "fst (shareDocument e st actor did email perm)")
  case (Inl err)
  then have "snd (shareDocument e st actor did email perm) = st"
    using shareDocument_failure [of e st actor did email perm err] by (metis prod.collapse)
  then show ?thesis
    using doc wf saved by simp
next
  case (Inr ok)
  then have "shareDocument e st actor did email perm =
      (Inr (fst ok, snd ok), snd (shareDocument e st actor did email perm))"
    by (metis prod.collapse)
  from shareDocument_success [OF this] doc saved
  obtain g where "g \<noteq> owner doc"
    "saved = doc\<lparr>sharedWith := sharedAfter g perm (sharedWith doc)\<rparr>"
    by auto
  then show ?thesis
    using wf sharedAfter_distinct [of "sharedWith doc" g perm]
      sharedAfter_others [of g "owner doc" "sharedWith doc" perm]
    by (simp add: well_formed_def)
qed

lemma applySignatures_well_formed:
  assumes doc: "documents_js st did = Some doc" and wf: "well_formed doc"
    and saved: "documents_js (snd (applySignatures e st actor did body_signature)) did = Some saved"
  shows "well_formed saved"
proof (cases "fst (applySignatures e st actor did body_signature)")
  case (Inl err)
  then have "applySignatures e st actor did body_signature =
      (Inl err, snd (applySignatures e st actor did body_signature))"
    by (metis prod.collapse)
  from applySignatures_failure [OF this] have
    "documents_js (snd (applySignatures e st actor did body_signature)) = documents_js st"
    by auto
  then show ?thesis
    using doc wf saved by simp
next
  case (Inr ok)
  then have "applySignatures e st actor did body_signature =
      (Inr ok, snd (applySignatures e st actor did body_signature))"
    by (metis prod.collapse)
  from applySignatures_success [OF this] doc saved
  obtain userId signature where "saved = signedRecord e userId signature doc"
    by auto
  then show ?thesis
    using wf recordSigner_distinct [of "signedBy doc" userId "now e" signature]
    by (simp add: well_formed_def signedRecord_def)
qed


section \<open>Sharing\<close>

text \<open>
  C8. Two successive successful share requests for the same grantee leave exactly one
  grant for that grantee, carrying the permission of the later request; the second request
  updates the entry in place and the list does not grow.
\<close>

theorem shareDocument_twice_one_grant:
  assumes doc: "documents_js st did = Some doc"
    and inv: "distinct (map share_user (sharedWith doc))"
    and first: "shareDocument e1 st actor1 did email p1 = (Inr (outcome1, d1), st1)"
    and second: "shareDocument e2 st1 actor2 did email p2 = (Inr (outcome2, d2), st2)"
  shows "\<exists>g. users st email = Some g
     \<and> filter (\<lambda>s. share_user s = g) (sharedWith d2) = [\<lparr>share_user = g, permission = p2\<rparr>]
     \<and> distinct (map share_user (sharedWith d2))
     \<and> length (sharedWith d2) = length (sharedWith d1)
     \<and> outcome2 = PermissionUpdated
     \<and> documents_js st2 did = Some d2"
proof -
  obtain g where g: "users st email = Some g"
    and d1: "d1 = doc\<lparr>sharedWith := sharedAfter g p1 (sharedWith doc)\<rparr>"
    and st1: "st1 = st\<lparr>documents_js := (documents_js st)(did \<mapsto> d1)\<rparr>"
    using shareDocument_success [OF first] doc by auto
  have doc1: "documents_js st1 did = Some d1" and users1: "users st1 email = Some g"
    using st1 g by simp_all
  obtain g' where g': "users st1 email = Some g'"
    and out: "outcome2 = (if \<exists>s \<in> set (sharedWith d1). share_user s = g'
                   then PermissionUpdated else SharedSuccessfully)"
    and d2: "d2 = d1\<lparr>sharedWith := sharedAfter g' p2 (sharedWith d1)\<rparr>"
    and st2: "st2 = st1\<lparr>documents_js := (documents_js st1)(did \<mapsto> d2)\<rparr>"
    using shareDocument_success [OF second] doc1 by auto
  have same: "g' = g"
    using g' users1 by simp
  have inv1: "distinct (map share_user (sharedWith d1))"
    using inv by (simp add: d1 sharedAfter_distinct)
  have grant: "filter (\<lambda>s. share_user s = g) (sharedWith d2) = [\<lparr>share_user = g, permission = p2\<rparr>]"
    using sharedAfter_grant [OF inv1, of g p2] by (simp add: d2 same)
  have inv2: "distinct (map share_user (sharedWith d2))"
    using inv1 by (simp add: d2 sharedAfter_distinct)
  have len: "length (sharedWith d2) = length (sharedWith d1)"
    by (simp add: d2 d1 same sharedAfter_again)
  have "g \<in> share_user ` set (sharedWith d1)"
    using sharedAfter_member [of g p1 "sharedWith doc"] by (simp add: d1)
  then have "\<exists>s \<in> set (sharedWith d1). share_user s = g"
    by blast
  then have upd: "outcome2 = PermissionUpdated"
    using out same by simp
  have "documents_js st2 did = Some d2"
    by (simp add: st2)
  then show ?thesis
    using g grant inv2 len upd by blast
qed

theorem shareDocument_twice_one_grant_witness:
  "users sample_store_js ''bob@example.com'' = Some 20
   \<and> (\<exists>d2. documents_js shared_twice 7 = Some d2
         \<and> filter (\<lambda>s. share_user s = 20) (sharedWith d2) =
             [\<lparr>share_user = 20, permission = ViewAndSign\<rparr>])"
proof -
  note doc = sample_store_js_contract(1)
  have inv: "distinct (map share_user (sharedWith contract_js))"
    by (simp add: sample_store_js_contract(6))
  have other: "(20::nat) \<noteq> owner contract_js"
    by (simp add: sample_store_js_contract(5))
  have run1: "shareDocument sample_env sample_store_js (Some (owner contract_js)) 7
      ''bob@example.com'' View =
      (Inr (SharedSuccessfully, contract_js\<lparr>sharedWith := sharedAfter 20 View (sharedWith contract_js)\<rparr>),
       sample_store_js\<lparr>documents_js := (documents_js sample_store_js)(7 \<mapsto>
         contract_js\<lparr>sharedWith := sharedAfter 20 View (sharedWith contract_js)\<rparr>)\<rparr>)"
    using shareDocument_run [OF doc sample_store_js_contract(3) other sample_env_accepts(2), of View]
    by (simp add: sample_store_js_contract(6))
  have first: "shareDocument sample_env sample_store_js (Some 10) 7 ''bob@example.com'' View =
      (Inr (SharedSuccessfully, contract_js\<lparr>sharedWith := sharedAfter 20 View (sharedWith contract_js)\<rparr>),
       shared_once)"
    using run1 by (simp add: shared_once_def sample_store_js_contract(5))
  have once: "documents_js shared_once 7 =
      Some (contract_js\<lparr>sharedWith := sharedAfter 20 View (sharedWith contract_js)\<rparr>)"
    "users shared_once ''bob@example.com'' = Some 20"
    using run1 by (simp_all add: shared_once_def sample_store_js_contract)
  have other1: "(20::nat) \<noteq> owner (contract_js\<lparr>sharedWith := sharedAfter 20 View (sharedWith contract_js)\<rparr>)"
    by (simp add: sample_store_js_contract(5))
  have run2: "shareDocument sample_env shared_once
      (Some (owner (contract_js\<lparr>sharedWith := sharedAfter 20 View (sharedWith contract_js)\<rparr>))) 7
      ''bob@example.com'' ViewAndSign =
      (Inr (PermissionUpdated,
            contract_js\<lparr>sharedWith := sharedAfter 20 ViewAndSign (sharedAfter 20 View (sharedWith contract_js))\<rparr>),
       shared_once\<lparr>documents_js := (documents_js shared_once)(7 \<mapsto>
         contract_js\<lparr>sharedWith := sharedAfter 20 ViewAndSign (sharedAfter 20 View (sharedWith contract_js))\<rparr>)\<rparr>)"
    using shareDocument_run [OF once(1) once(2) other1 sample_env_accepts(2), of ViewAndSign]
      sharedAfter_member [of 20 View "sharedWith contract_js"]
    by (simp add: image_iff)
  have second: "shareDocument sample_env shared_once (Some 10) 7 ''bob@example.com'' ViewAndSign =
      (Inr (PermissionUpdated,
            contract_js\<lparr>sharedWith := sharedAfter 20 ViewAndSign (sharedAfter 20 View (sharedWith contract_js))\<rparr>),
       shared_twice)"
    using run2 by (simp add: shared_twice_def sample_store_js_contract(5))
  obtain g where "users sample_store_js ''bob@example.com'' = Some g"
     "filter (\<lambda>s. share_user s = g)
        (sharedWith (contract_js\<lparr>sharedWith := sharedAfter 20 ViewAndSign (sharedAfter 20 View (sharedWith contract_js))\<rparr>))
       = [\<lparr>share_user = g, permission = ViewAndSign\<rparr>]"
     "documents_js shared_twice 7 =
        Some (contract_js\<lparr>sharedWith := sharedAfter 20 ViewAndSign (sharedAfter 20 View (sharedWith contract_js))\<rparr>)"
    using shareDocument_twice_one_grant [OF doc inv first second] by blast
  then show ?thesis
    using sample_store_js_contract(3) by auto
qed

text \<open>
  C10. A share request whose email resolves to the document's owner fails and leaves the
  store unchanged; made by the owner it is answered with status 400, ``Cannot share a
  document with yourself''. No share request ever makes the owner a grantee.
\<close>

theorem shareDocument_never_with_owner:
  assumes doc: "documents_js st did = Some doc"
  shows "(users st email = Some (owner doc) \<longrightarrow>
           (\<exists>err. shareDocument e st actor did email perm = (Inl err, st))
           \<and> (actor = Some (owner doc) \<longrightarrow>
                shareDocument e st actor did email perm = (Inl (400, CannotShareWithYourself), st)))
     \<and> (owner doc \<notin> set (map share_user (sharedWith doc)) \<longrightarrow>
          (\<forall>saved. documents_js (snd (shareDocument e st actor did email perm)) did = Some saved \<longrightarrow>
             owner saved = owner doc \<and> owner saved \<notin> set (map share_user (sharedWith saved))))"
proof (intro conjI impI allI)
  assume self: "users st email = Some (owner doc)"
  show "\<exists>err. shareDocument e st actor did email perm = (Inl err, st)"
    using doc self unfolding shareDocument_def by (cases actor) auto
next
  assume "users st email = Some (owner doc)" "actor = Some (owner doc)"
  then show "shareDocument e st actor did email perm = (Inl (400, CannotShareWithYourself), st)"
    using doc by (simp add: shareDocument_def)
next
  fix saved
  assume free: "owner doc \<notin> set (map share_user (sharedWith doc))"
    and saved: "documents_js (snd (shareDocument e st actor did email perm)) did = Some saved"
  show "owner saved = owner doc"
  proof (cases "fst (shareDocument e st actor did email perm)")
    case (Inl err)
    then have "snd (shareDocument e st actor did email perm) = st"
      using shareDocument_failure [of e st actor did email perm err] by (metis prod.collapse)
    then show ?thesis using doc saved by simp
  next
    case (Inr ok)
    then have "shareDocument e st actor did email perm =
        (Inr (fst ok, snd ok), snd (shareDocument e st actor did email perm))"
      by (metis prod.collapse)
    from shareDocument_success [OF this] doc saved show ?thesis by auto
  qed
next
  fix saved
  assume free: "owner doc \<notin> set (map share_user (sharedWith doc))"
    and saved: "documents_js (snd (shareDocument e st actor did email perm)) did = Some saved"
  show "owner saved \<notin> set (map share_user (sharedWith saved))"
  proof (cases "fst (shareDocument e st actor did email perm)")
    case (Inl err)
    then have "snd (shareDocument e st actor did email perm) = st"
      using shareDocument_failure [of e st actor did email perm err] by (metis prod.collapse)
    then show ?thesis using doc saved free by simp
  next
    case (Inr ok)
    then have "shareDocument e st actor did email perm =
        (Inr (fst ok, snd ok), snd (shareDocument e st actor did email perm))"
      by (metis prod.collapse)
    from shareDocument_success [OF this] doc saved
    obtain g where "g \<noteq> owner doc"
      "saved = doc\<lparr>sharedWith := sharedAfter g perm (sharedWith doc)\<rparr>"
      by auto
    then show ?thesis
      using free sharedAfter_others [of g "owner doc" "sharedWith doc" perm] by simp
  qed
qed

theorem shareDocument_never_with_owner_witness:
  "shareDocument sample_env sample_store_js (Some 10) 7 ''alice@example.com'' ViewAndSign =
     (Inl (400, CannotShareWithYourself), sample_store_js)"
  using shareDocument_never_with_owner [OF sample_store_js_contract(1), of "''alice@example.com''"
      sample_env "Some 10" ViewAndSign]
  by (simp add: sample_store_js_contract)

section \<open>Who may sign\<close>

lemma validate_error_code:
  assumes "validate b = Inl err"
  shows "fst err = 400"
  using assms
  by (auto simp: validate_def split: option.splits if_splits)

lemma drawSignature_error_code:
  assumes "drawSignature e r pg = Inl err"
  shows "fst err = 400 \<or> fst err = 500"
  using assms unfolding drawSignature_def Let_def
  by (auto split: if_splits list.splits option.splits sum.splits)

lemma signPdf_error_code:
  assumes "signPdf e r pages = Inl err"
  shows "fst err = 400 \<or> fst err = 500"
  using assms drawSignature_error_code unfolding signPdf_def Let_def
  by (auto split: if_splits sum.splits)

lemma applySignature_not_owner:
  assumes "documents st did = Some doc" "user doc \<noteq> u"
  shows "applySignature e st (Some u) did b =
    (case validate b of
       Inl err \<Rightarrow> (Inl err, st)
     | Inr r \<Rightarrow> (Inl (403, FailedToApplySignature NotAuthorizedToSign), st))"
  using assms by (simp add: applySignature_def split: sum.splits)

lemma applySignature_owner_not_forbidden:
  assumes "documents st did = Some doc" "user doc = u"
  shows "fst (applySignature e st (Some u) did b) \<noteq> Inl (403, m)"
proof (cases "validate b")
  case (Inl err)
  then show ?thesis
    using validate_error_code [OF Inl] by (auto simp: applySignature_def)
next
  case (Inr r)
  show ?thesis
  proof (cases "files st (filePath doc)")
    case None
    then show ?thesis using assms Inr by (simp add: applySignature_def)
  next
    case (Some bytes)
    show ?thesis
    proof (cases bytes)
      case (OtherBytes x)
      then show ?thesis using assms Inr Some by (simp add: applySignature_def)
    next
      case (PdfBytes pages)
      show ?thesis
      proof (cases "signPdf e r pages")
        case (Inl err)
        then show ?thesis
          using assms Inr Some PdfBytes signPdf_error_code [OF Inl]
          by (cases err) (auto simp: applySignature_def)
      next
        case modified: (Inr m)
        have pdf: "files st (filePath doc) = Some (PdfBytes pages)"
          using Some PdfBytes by simp
        show ?thesis
          using applySignature_run [OF Inr assms(1) pdf modified] assms(2)
          by auto
      qed
    qed
  qed
qed

lemma applySignatures_not_permitted:
  assumes "documents_js st did = Some doc"
    and "\<not> (owner doc = u
          \<or> (\<exists>s \<in> set (sharedWith doc). share_user s = u \<and> permission s = ViewAndSign))"
  shows "applySignatures e st (Some u) did body_signature =
    (if body_signature = None \<or> body_signature = Some [] then (Inl (400, SignatureRequired), st)
     else (Inl (403, NotAuthorizedToSign), st))"
  using assms unfolding applySignatures_def Let_def
  by (auto split: option.splits)

lemma applySignatures_permitted_not_forbidden:
  assumes "documents_js st did = Some doc"
    and "owner doc = u
          \<or> (\<exists>s \<in> set (sharedWith doc). share_user s = u \<and> permission s = ViewAndSign)"
  shows "fst (applySignatures e st (Some u) did body_signature) \<noteq> Inl (403, m)"
  using assms unfolding applySignatures_def Let_def
  by (auto split: option.splits file_bytes.splits)

lemma shared_store_js_contract:
  "documents_js shared_store_js 7 = Some shared_contract_js"
  "files_js shared_store_js (filePath_js shared_contract_js) = Some (PdfBytes [letter])"
  "owner shared_contract_js = 10"
  "sharedWith shared_contract_js = [\<lparr>share_user = 20, permission = ViewAndSign\<rparr>,
                                   \<lparr>share_user = 30, permission = View\<rparr>]"
  "filePath_js shared_contract_js = ''/app/uploads/1699-contract.pdf''"
  by (simp_all add: shared_store_js_def shared_contract_js_def sample_store_js_def contract_js_def)


text \<open>
  C2. \<open>applySignatures\<close> rejects an actor who is neither the owner nor holds a
  \<^verbatim>\<open>view_and_sign\<close> share: the request fails, nothing is changed, and a request that
  carries signature data is answered with status 403. An owner or sign-capable grantee is
  never answered with 403, and the request succeeds when the PDF can be read, drawn on,
  written and saved. In \<open>applySignature\<close>, whose records have no share list, the same
  holds with the owner as the only permitted actor.
\<close>

theorem sign_permitted_for_owner_or_sign_grant:
  "(documents_js st did = Some doc \<longrightarrow>
      (\<not> (owner doc = u
           \<or> (\<exists>s \<in> set (sharedWith doc). share_user s = u \<and> permission s = ViewAndSign)) \<longrightarrow>
          (\<exists>err. applySignatures e st (Some u) did body_signature = (Inl err, st))
          \<and> (\<forall>signature. body_signature = Some signature \<and> signature \<noteq> [] \<longrightarrow>
                applySignatures e st (Some u) did body_signature =
                  (Inl (403, NotAuthorizedToSign), st)))
      \<and> (owner doc = u
           \<or> (\<exists>s \<in> set (sharedWith doc). share_user s = u \<and> permission s = ViewAndSign) \<longrightarrow>
          fst (applySignatures e st (Some u) did body_signature) \<noteq> Inl (403, NotAuthorizedToSign)
          \<and> (\<forall>signature pages modified.
                body_signature = Some signature \<and> signature \<noteq> []
                \<and> files_js st (filePath_js doc) = Some (PdfBytes pages)
                \<and> drawCentered e signature pages = Some modified
                \<and> writeFile_ok e (filePath_js doc) \<and> save_ok e \<longrightarrow>
                fst (applySignatures e st (Some u) did body_signature) =
                  Inr (signedRecord e u signature doc))))
   \<and> (documents st2 did2 = Some doc2 \<longrightarrow>
        (user doc2 \<noteq> u \<longrightarrow>
           (\<exists>err. applySignature e st2 (Some u) did2 b = (Inl err, st2))
           \<and> (\<forall>r. validate b = Inr r \<longrightarrow>
                 applySignature e st2 (Some u) did2 b =
                   (Inl (403, FailedToApplySignature NotAuthorizedToSign), st2)))
        \<and> (user doc2 = u \<longrightarrow>
             fst (applySignature e st2 (Some u) did2 b)
               \<noteq> Inl (403, FailedToApplySignature NotAuthorizedToSign)))"
proof (intro conjI impI allI)
  assume "documents_js st did = Some doc"
    "\<not> (owner doc = u \<or> (\<exists>s \<in> set (sharedWith doc). share_user s = u \<and> permission s = ViewAndSign))"
  then show "\<exists>err. applySignatures e st (Some u) did body_signature = (Inl err, st)"
    using applySignatures_not_permitted [of st did doc u e body_signature] by auto
next
  fix signature
  assume "documents_js st did = Some doc"
    "\<not> (owner doc = u \<or> (\<exists>s \<in> set (sharedWith doc). share_user s = u \<and> permission s = ViewAndSign))"
    "body_signature = Some signature \<and> signature \<noteq> []"
  then show "applySignatures e st (Some u) did body_signature = (Inl (403, NotAuthorizedToSign), st)"
    by (simp add: applySignatures_not_permitted)
next
  assume "documents_js st did = Some doc"
    "owner doc = u \<or> (\<exists>s \<in> set (sharedWith doc). share_user s = u \<and> permission s = ViewAndSign)"
  then show "fst (applySignatures e st (Some u) did body_signature) \<noteq> Inl (403, NotAuthorizedToSign)"
    by (rule applySignatures_permitted_not_forbidden)
next
  fix signature pages modified
  assume doc: "documents_js st did = Some doc"
    and may: "owner doc = u
      \<or> (\<exists>s \<in> set (sharedWith doc). share_user s = u \<and> permission s = ViewAndSign)"
    and rest: "body_signature = Some signature \<and> signature \<noteq> []
                \<and> files_js st (filePath_js doc) = Some (PdfBytes pages)
                \<and> drawCentered e signature pages = Some modified
                \<and> writeFile_ok e (filePath_js doc) \<and> save_ok e"
  have "applySignatures e st (Some u) did (Some signature) =
     (Inr (signedRecord e u signature doc),
           \<lparr>documents_js = (documents_js st)(did \<mapsto> signedRecord e u signature doc),
            files_js = (files_js st)(filePath_js doc \<mapsto> PdfBytes modified),
            users = users st\<rparr>)"
    using applySignatures_run [OF _ doc may, of signature pages e modified] rest by simp
  then show "fst (applySignatures e st (Some u) did body_signature) =
      Inr (signedRecord e u signature doc)"
    using rest by simp
next
  assume "documents st2 did2 = Some doc2" "user doc2 \<noteq> u"
  then show "\<exists>err. applySignature e st2 (Some u) did2 b = (Inl err, st2)"
    by (cases "validate b") (simp_all add: applySignature_not_owner)
next
  fix r
  assume "documents st2 did2 = Some doc2" "user doc2 \<noteq> u" "validate b = Inr r"
  then show "applySignature e st2 (Some u) did2 b =
      (Inl (403, FailedToApplySignature NotAuthorizedToSign), st2)"
    by (simp add: applySignature_not_owner)
next
  assume "documents st2 did2 = Some doc2" "user doc2 = u"
  then show "fst (applySignature e st2 (Some u) did2 b)
      \<noteq> Inl (403, FailedToApplySignature NotAuthorizedToSign)"
    by (rule applySignature_owner_not_forbidden)
qed


theorem sign_permitted_for_owner_or_sign_grant_witness:
  "applySignatures sample_env shared_store_js (Some 30) 7 (Some ''data:image/png;base64,iVBORw0KGgo='') =
     (Inl (403, NotAuthorizedToSign), shared_store_js)
   \<and> fst (applySignatures sample_env shared_store_js (Some 20) 7
        (Some ''data:image/png;base64,iVBORw0KGgo='')) =
       Inr (signedRecord sample_env 20 ''data:image/png;base64,iVBORw0KGgo='' shared_contract_js)
   \<and> applySignature sample_env sample_store (Some 20) 7 image_body =
       (Inl (403, FailedToApplySignature NotAuthorizedToSign), sample_store)"
proof -
  note doc = shared_store_js_contract(1)
  have draw: "drawCentered sample_env ''data:image/png;base64,iVBORw0KGgo='' [letter] =
      Some [letter\<lparr>content := content letter @ [DrawImage \<lparr>image_width = 300, image_height = 150\<rparr>
           (page_width letter / 2 - 125) (page_height letter / 2 - 125 / 2) 250 125 (Some (9 / 10))]\<rparr>]"
    by (rule drawCentered_letter) (simp add: sample_env_def)
  have carol: "\<not> (owner shared_contract_js = 30
      \<or> (\<exists>s \<in> set (sharedWith shared_contract_js). share_user s = 30 \<and> permission s = ViewAndSign))"
    by (simp add: shared_store_js_contract)
  have bob: "owner shared_contract_js = 20
      \<or> (\<exists>s \<in> set (sharedWith shared_contract_js). share_user s = 20 \<and> permission s = ViewAndSign)"
    by (simp add: shared_store_js_contract)
  have a: "applySignatures sample_env shared_store_js (Some 30) 7
      (Some ''data:image/png;base64,iVBORw0KGgo='') = (Inl (403, NotAuthorizedToSign), shared_store_js)"
    using sign_permitted_for_owner_or_sign_grant [of shared_store_js 7 shared_contract_js 30
        sample_env "Some ''data:image/png;base64,iVBORw0KGgo=''"] doc carol
    by simp
  have b: "fst (applySignatures sample_env shared_store_js (Some 20) 7
        (Some ''data:image/png;base64,iVBORw0KGgo='')) =
       Inr (signedRecord sample_env 20 ''data:image/png;base64,iVBORw0KGgo='' shared_contract_js)"
    using sign_permitted_for_owner_or_sign_grant [of shared_store_js 7 shared_contract_js 20
        sample_env "Some ''data:image/png;base64,iVBORw0KGgo=''"] doc bob
      shared_store_js_contract(2) draw sample_env_accepts
    by simp
  have c: "applySignature sample_env sample_store (Some 20) 7 image_body =
       (Inl (403, FailedToApplySignature NotAuthorizedToSign), sample_store)"
    using sign_permitted_for_owner_or_sign_grant [of _ _ _ 20 sample_env _ sample_store 7 contract
        image_body] sample_store_contract(1) sample_store_contract(3) validate_image_body
    by simp
  show ?thesis
    using a b c by simp
qed

section \<open>Signing twice\<close>

lemma drawCentered_changes:
  assumes "drawCentered e signature pages = Some modified"
  shows "modified \<noteq> pages"
proof
  assume same: "modified = pages"
  from assms obtain firstPage others op where
    "pages = firstPage # others"
    "modified = firstPage\<lparr>content := content firstPage @ [op]\<rparr> # others"
    unfolding drawCentered_def Let_def
    by (auto split: list.splits option.splits if_splits)
  then have "content (firstPage\<lparr>content := content firstPage @ [op]\<rparr>) = content firstPage"
    using same by simp
  then show False by simp
qed

lemma drawSignature_appends:
  assumes "drawSignature e r pg = Inr drawn"
  shows "\<exists>op. content drawn = content pg @ [op]"
  using assms unfolding drawSignature_def Let_def
  by (auto split: if_splits list.splits option.splits sum.splits)

lemma signPdf_changes:
  assumes "signPdf e r pages = Inr modified"
  shows "modified \<noteq> pages"
proof
  assume same: "modified = pages"
  let ?i = "nat \<lfloor>req_page r\<rfloor> - 1"
  from assms have range: "1 \<le> req_page r" "req_page r \<le> real (length pages)"
    unfolding signPdf_def by (auto split: if_splits)
  from assms obtain drawn where drawn: "drawSignature e r (pages ! ?i) = Inr drawn"
    and m: "modified = pages[?i := drawn]"
    unfolding signPdf_def Let_def by (auto split: if_splits sum.splits)
  have "1 \<le> \<lfloor>req_page r\<rfloor>"
    using range(1) by linarith
  moreover have "\<lfloor>req_page r\<rfloor> \<le> int (length pages)"
    using range(2) by linarith
  ultimately have "?i < length pages"
    by linarith
  then have "drawn = pages ! ?i"
    using m same by (metis nth_list_update_eq)
  then show False
    using drawSignature_appends [OF drawn] by auto
qed

lemma signPdf_image_first:
  assumes "embedPng e ''iVBORw0KGgo='' = Some \<lparr>image_width = 300, image_height = 150\<rparr>"
    and "page_width pg = 612" "page_height pg = 792"
  shows "signPdf e \<lparr>req_data = ''data:image/png;base64,iVBORw0KGgo='', req_position = (50, 100),
      req_dimensions = (300, 400), req_page = 1, req_type = ''draw''\<rparr> (pg # rest) =
    Inr (pg\<lparr>content := content pg @ [DrawImage \<lparr>image_width = 300, image_height = 150\<rparr>
           102 (4455 / 10) 306 (1485 / 10) None]\<rparr> # rest)"
  using assms
  by (simp add: signPdf_def drawSignature_def startsWith_def imagePlacement_def scaleX_def
      scaleY_def frontendDisplayWidth_def frontendDisplayHeight_def Let_def)

lemma drawCentered_first:
  assumes "split_comma signature = header # encoded # others"
    and "startsWith signature ''data:image/png''"
    and "embedPng e encoded = Some img"
  shows "drawCentered e signature (pg # rest) =
    Some (pg\<lparr>content := content pg @ [DrawImage img
           (page_width pg / 2 - 125) (page_height pg / 2 - 125 / 2) 250 125 (Some (9 / 10))]\<rparr> # rest)"
  using assms
  by (simp add: drawCentered_def signatureWidth_def signatureHeight_def Let_def)


text \<open>
  C7. In \<open>applySignatures\<close>, two successive successful sign requests of one actor leave
  exactly one signer entry for that actor, holding the timestamp and signature of the
  second request; the list does not grow, and the file the record points to holds the
  second version, drawn on top of the first. In \<open>applySignature\<close>, whose records have no
  signer list, the record points after the second request to the file written by it, which
  holds the second version built from the first.
\<close>

theorem sign_twice_one_entry:
  "(documents_js st did = Some doc \<and> distinct (map signer_user (signedBy doc))
     \<and> applySignatures e1 st (Some u) did sig1 = (Inr d1, st1)
     \<and> applySignatures e2 st1 (Some u) did sig2 = (Inr d2, st2) \<longrightarrow>
       (\<exists>signature v1 v2. sig2 = Some signature
          \<and> filter (\<lambda>s. signer_user s = u) (signedBy d2) =
              [\<lparr>signer_user = u, signedAt = now e2, signatureImage = signature\<rparr>]
          \<and> length (signedBy d2) = length (signedBy d1)
          \<and> documents_js st2 did = Some d2
          \<and> files_js st1 (filePath_js d1) = Some (PdfBytes v1)
          \<and> drawCentered e2 signature v1 = Some v2
          \<and> files_js st2 (filePath_js d2) = Some (PdfBytes v2) \<and> v2 \<noteq> v1))
   \<and> (applySignature e1 s0 a1 k b1 = (Inr r1, s1)
       \<and> applySignature e2 s1 a2 k b2 = (Inr r2, s2) \<longrightarrow>
       (\<exists>d1 d2 r v1 v2. documents s1 k = Some d1 \<and> files s1 (filePath d1) = Some (PdfBytes v1)
          \<and> documents s2 k = Some d2 \<and> filePath d2 = newFilePath e2 d1
          \<and> validate b2 = Inr r \<and> signPdf e2 r v1 = Inr v2
          \<and> files s2 (filePath d2) = Some (PdfBytes v2) \<and> v2 \<noteq> v1))"
proof (intro conjI impI)
  assume hyp: "documents_js st did = Some doc \<and> distinct (map signer_user (signedBy doc))
     \<and> applySignatures e1 st (Some u) did sig1 = (Inr d1, st1)
     \<and> applySignatures e2 st1 (Some u) did sig2 = (Inr d2, st2)"
  then have doc: "documents_js st did = Some doc"
    and inv: "distinct (map signer_user (signedBy doc))"
    and first: "applySignatures e1 st (Some u) did sig1 = (Inr d1, st1)"
    and second: "applySignatures e2 st1 (Some u) did sig2 = (Inr d2, st2)"
    by simp_all
  obtain s1 m1 where d1: "d1 = signedRecord e1 u s1 doc"
    and st1: "st1 = \<lparr>documents_js = (documents_js st)(did \<mapsto> d1),
               files_js = (files_js st)(filePath_js doc \<mapsto> PdfBytes m1),
               users = users st\<rparr>"
    using applySignatures_success [OF first] doc by auto
  have doc1: "documents_js st1 did = Some d1"
    by (simp add: st1)
  obtain s2 v1 v2 where sig2: "sig2 = Some s2"
    and pdf1: "files_js st1 (filePath_js d1) = Some (PdfBytes v1)"
    and draw: "drawCentered e2 s2 v1 = Some v2"
    and d2: "d2 = signedRecord e2 u s2 d1"
    and st2: "st2 = \<lparr>documents_js = (documents_js st1)(did \<mapsto> d2),
               files_js = (files_js st1)(filePath_js d1 \<mapsto> PdfBytes v2),
               users = users st1\<rparr>"
    using applySignatures_success [OF second] doc1 by auto
  have inv1: "distinct (map signer_user (signedBy d1))"
    using inv by (simp add: d1 signedRecord_def recordSigner_distinct)
  have entry: "filter (\<lambda>s. signer_user s = u) (signedBy d2) =
      [\<lparr>signer_user = u, signedAt = now e2, signatureImage = s2\<rparr>]"
    using recordSigner_entry [OF inv1, of u "now e2" s2] by (simp add: d2 signedRecord_def)
  have len: "length (signedBy d2) = length (signedBy d1)"
    by (simp add: d2 d1 signedRecord_def recordSigner_again)
  have saved: "documents_js st2 did = Some d2"
    by (simp add: st2)
  have path: "filePath_js d2 = filePath_js d1"
    by (simp add: d2 signedRecord_def)
  have pdf2: "files_js st2 (filePath_js d2) = Some (PdfBytes v2)"
    by (simp add: st2 path)
  have "v2 \<noteq> v1"
    using drawCentered_changes [OF draw] .
  then show "\<exists>signature v1 v2. sig2 = Some signature
          \<and> filter (\<lambda>s. signer_user s = u) (signedBy d2) =
              [\<lparr>signer_user = u, signedAt = now e2, signatureImage = signature\<rparr>]
          \<and> length (signedBy d2) = length (signedBy d1)
          \<and> documents_js st2 did = Some d2
          \<and> files_js st1 (filePath_js d1) = Some (PdfBytes v1)
          \<and> drawCentered e2 signature v1 = Some v2
          \<and> files_js st2 (filePath_js d2) = Some (PdfBytes v2) \<and> v2 \<noteq> v1"
    using sig2 entry len saved pdf1 draw pdf2 by blast
next
  assume hyp: "applySignature e1 s0 a1 k b1 = (Inr r1, s1)
       \<and> applySignature e2 s1 a2 k b2 = (Inr r2, s2)"
  then have first: "applySignature e1 s0 a1 k b1 = (Inr r1, s1)"
    and second: "applySignature e2 s1 a2 k b2 = (Inr r2, s2)"
    by simp_all
  obtain d0 m1 where s1: "s1 = \<lparr>documents = (documents s0)(k \<mapsto> signedVersion e1 d0),
               files = (files s0)(newFilePath e1 d0 \<mapsto> PdfBytes m1)\<rparr>"
    using applySignature_success [OF first] by blast
  have doc1: "documents s1 k = Some (signedVersion e1 d0)"
    by (simp add: s1)
  obtain r v1 v2 where r: "validate b2 = Inr r"
    and pdf1: "files s1 (filePath (signedVersion e1 d0)) = Some (PdfBytes v1)"
    and draw: "signPdf e2 r v1 = Inr v2"
    and s2: "s2 = \<lparr>documents = (documents s1)(k \<mapsto> signedVersion e2 (signedVersion e1 d0)),
               files = (files s1)(newFilePath e2 (signedVersion e1 d0) \<mapsto> PdfBytes v2)\<rparr>"
    using applySignature_success [OF second] doc1 by auto
  have doc2: "documents s2 k = Some (signedVersion e2 (signedVersion e1 d0))"
    by (simp add: s2)
  have path: "filePath (signedVersion e2 (signedVersion e1 d0)) = newFilePath e2 (signedVersion e1 d0)"
    by (simp add: signedVersion_def)
  have pdf2: "files s2 (filePath (signedVersion e2 (signedVersion e1 d0))) = Some (PdfBytes v2)"
    by (simp add: s2 path)
  have "v2 \<noteq> v1"
    using signPdf_changes [OF draw] .
  then show "\<exists>d1 d2 r v1 v2. documents s1 k = Some d1 \<and> files s1 (filePath d1) = Some (PdfBytes v1)
          \<and> documents s2 k = Some d2 \<and> filePath d2 = newFilePath e2 d1
          \<and> validate b2 = Inr r \<and> signPdf e2 r v1 = Inr v2
          \<and> files s2 (filePath d2) = Some (PdfBytes v2) \<and> v2 \<noteq> v1"
    using doc1 pdf1 doc2 path r draw pdf2 by blast
qed

theorem sign_twice_one_entry_witness:
  "(\<exists>d2. documents_js signed_twice_js 7 = Some d2
      \<and> filter (\<lambda>s. signer_user s = 10) (signedBy d2) =
          [\<lparr>signer_user = 10, signedAt = 1700000009999,
            signatureImage = ''data:image/png;base64,AAAA''\<rparr>])
   \<and> (\<exists>d2 v2. documents signed_twice 7 = Some d2
      \<and> files signed_twice (filePath d2) = Some (PdfBytes v2))"
proof -
  let ?e2 = "sample_env\<lparr>now := 1700000009999\<rparr>"
  let ?sig1 = "''data:image/png;base64,iVBORw0KGgo=''"
  let ?sig2 = "''data:image/png;base64,AAAA''"
  let ?img = "\<lparr>image_width = 300, image_height = 150\<rparr>"
  note doc = sample_store_js_contract(1)
  have inv: "distinct (map signer_user (signedBy contract_js))"
    by (simp add: sample_store_js_contract(7))
  have own: "owner contract_js = 10
      \<or> (\<exists>s \<in> set (sharedWith contract_js). share_user s = 10 \<and> permission s = ViewAndSign)"
    by (simp add: sample_store_js_contract(5))
  have png: "embedPng sample_env b = Some ?img" "embedPng ?e2 b = Some ?img" for b
    by (simp_all add: sample_env_def)
  let ?v1 = "[letter\<lparr>content := content letter @ [DrawImage ?img
           (page_width letter / 2 - 125) (page_height letter / 2 - 125 / 2) 250 125 (Some (9 / 10))]\<rparr>]"
  have draw1: "drawCentered sample_env ?sig1 [letter] = Some ?v1"
    by (rule drawCentered_first [where header = "''data:image/png;base64''"
          and encoded = "''iVBORw0KGgo=''" and others = "[]"])
       (simp_all add: startsWith_def png)
  let ?d1 = "signedRecord sample_env 10 ?sig1 contract_js"
  have run1: "applySignatures sample_env sample_store_js (Some 10) 7 (Some ?sig1) =
      (Inr ?d1,
       \<lparr>documents_js = (documents_js sample_store_js)(7 \<mapsto> ?d1),
        files_js = (files_js sample_store_js)(filePath_js contract_js \<mapsto> PdfBytes ?v1),
        users = users sample_store_js\<rparr>)"
    using applySignatures_run [OF _ doc own sample_store_js_contract(2) draw1]
    by (simp add: sample_env_accepts)
  then have first: "applySignatures sample_env sample_store_js (Some 10) 7 (Some ?sig1) =
      (Inr ?d1, signed_once_js)"
    by (simp add: signed_once_js_def)
  have once: "documents_js signed_once_js 7 = Some ?d1"
    "files_js signed_once_js (filePath_js ?d1) = Some (PdfBytes ?v1)"
    using run1 by (simp_all add: signed_once_js_def signedRecord_def)
  have own1: "owner ?d1 = 10
      \<or> (\<exists>s \<in> set (sharedWith ?d1). share_user s = 10 \<and> permission s = ViewAndSign)"
    by (simp add: signedRecord_def sample_store_js_contract(5))
  obtain v2 where draw2: "drawCentered ?e2 ?sig2 ?v1 = Some v2"
    using drawCentered_first [where header = "''data:image/png;base64''"
          and encoded = "''AAAA''" and others = "[]" and signature = ?sig2
          and e = ?e2 and img = ?img]
    by (simp add: startsWith_def png)
  have run2: "applySignatures ?e2 signed_once_js (Some 10) 7 (Some ?sig2) =
      (Inr (signedRecord ?e2 10 ?sig2 ?d1),
       \<lparr>documents_js = (documents_js signed_once_js)(7 \<mapsto> signedRecord ?e2 10 ?sig2 ?d1),
        files_js = (files_js signed_once_js)(filePath_js ?d1 \<mapsto> PdfBytes v2),
        users = users signed_once_js\<rparr>)"
    using applySignatures_run [OF _ once(1) own1 once(2) draw2]
    by (simp add: sample_env_accepts)
  then have second: "applySignatures ?e2 signed_once_js (Some 10) 7 (Some ?sig2) =
      (Inr (signedRecord ?e2 10 ?sig2 ?d1), signed_twice_js)"
    by (simp add: signed_twice_js_def)
  have "\<exists>signature v1 v2. Some ?sig2 = Some signature
          \<and> filter (\<lambda>s. signer_user s = 10) (signedBy (signedRecord ?e2 10 ?sig2 ?d1)) =
              [\<lparr>signer_user = 10, signedAt = now ?e2, signatureImage = signature\<rparr>]
          \<and> length (signedBy (signedRecord ?e2 10 ?sig2 ?d1)) = length (signedBy ?d1)
          \<and> documents_js signed_twice_js 7 = Some (signedRecord ?e2 10 ?sig2 ?d1)
          \<and> files_js signed_once_js (filePath_js ?d1) = Some (PdfBytes v1)
          \<and> drawCentered ?e2 signature v1 = Some v2
          \<and> files_js signed_twice_js (filePath_js (signedRecord ?e2 10 ?sig2 ?d1)) = Some (PdfBytes v2)
          \<and> v2 \<noteq> v1"
    using sign_twice_one_entry [THEN conjunct1, rule_format, of sample_store_js 7 contract_js
        sample_env 10 "Some ?sig1" ?d1 signed_once_js ?e2 "Some ?sig2"
        "signedRecord ?e2 10 ?sig2 ?d1" signed_twice_js]
      doc inv first second
    by blast
  then have js: "\<exists>d2. documents_js signed_twice_js 7 = Some d2
      \<and> filter (\<lambda>s. signer_user s = 10) (signedBy d2) =
          [\<lparr>signer_user = 10, signedAt = 1700000009999, signatureImage = ?sig2\<rparr>]"
    by auto
  let ?r = "\<lparr>req_data = ?sig1, req_position = (50, 100),
      req_dimensions = (300, 400), req_page = 1, req_type = ''draw''\<rparr>"
  let ?m1 = "[letter\<lparr>content := [DrawImage ?img 102 (4455 / 10) 306 (1485 / 10) None]\<rparr>]"
  let ?c1 = "signedVersion sample_env contract"
  have ts_first: "applySignature sample_env sample_store (Some 10) 7 image_body =
      (Inr \<lparr>documentId = 7, newStatus = Signed\<rparr>, signed_once)"
    by (simp add: signed_once_def applySignature_image_body)
  have ts_once: "documents signed_once 7 = Some ?c1"
    "files signed_once (filePath ?c1) = Some (PdfBytes ?m1)"
    by (simp_all add: signed_once_def applySignature_image_body signedVersion_def)
  obtain m2 where ts_draw: "signPdf ?e2 ?r ?m1 = Inr m2"
    using signPdf_image_first [of ?e2 "letter\<lparr>content := [DrawImage ?img 102 (4455 / 10) 306 (1485 / 10) None]\<rparr>" "[]"]
    by (simp add: png letter_def)
  have ts_own: "user ?c1 = 10"
    by (simp add: signedVersion_def sample_store_contract(3))
  have "applySignature ?e2 signed_once (Some (user ?c1)) 7 image_body =
      (Inr \<lparr>documentId = 7, newStatus = Signed\<rparr>,
       \<lparr>documents = (documents signed_once)(7 \<mapsto> signedVersion ?e2 ?c1),
        files = (files signed_once)(newFilePath ?e2 ?c1 \<mapsto> PdfBytes m2)\<rparr>)"
    using applySignature_run [OF validate_image_body ts_once(1) ts_once(2) ts_draw]
    by (simp add: sample_env_accepts)
  then have ts_second: "applySignature ?e2 signed_once (Some 10) 7 image_body =
      (Inr \<lparr>documentId = 7, newStatus = Signed\<rparr>, signed_twice)"
    by (simp add: signed_twice_def ts_own)
  have ts: "\<exists>d2 v2. documents signed_twice 7 = Some d2
      \<and> files signed_twice (filePath d2) = Some (PdfBytes v2)"
    using sign_twice_one_entry [THEN conjunct2, rule_format, of sample_env sample_store "Some 10" 7
        image_body "\<lparr>documentId = 7, newStatus = Signed\<rparr>" signed_once ?e2 "Some 10" image_body
        "\<lparr>documentId = 7, newStatus = Signed\<rparr>" signed_twice]
      ts_first ts_second
    by blast
  show ?thesis
    using js ts by (rule conjI)
qed

end
